theory Spec2Isabelle
  imports Main Complex_Main "HOL-Library.Word"
begin

unbundle bit_operations_syntax

section \<open>Machine types of \<^verbatim>\<open>openjph_wrapper.cpp\<close>\<close>

text \<open>
  The wrapper is written against fixed-width integers: \<^verbatim>\<open>uint8_t\<close>, \<^verbatim>\<open>uint16_t\<close>,
  \<^verbatim>\<open>uint32_t\<close> (\<^verbatim>\<open>ojph::ui32\<close>), \<^verbatim>\<open>int32_t\<close> (\<^verbatim>\<open>ojph::si32\<close>, read with \<open>sint\<close>),
  and \<^verbatim>\<open>size_t\<close>. \<^verbatim>\<open>size_t\<close> is taken as 64 bits wide and \<^verbatim>\<open>long\<close> as 64 bits
  (LP64, the data model of the platforms the package builds for); \<^verbatim>\<open>size_t\<close> values are
  naturals that are reduced modulo \<open>2 ^ 64\<close> wherever the C++ arithmetic can wrap.
\<close>

type_synonym uint8_t = "8 word"
type_synonym uint16_t = "16 word"
type_synonym uint32_t = "32 word"
type_synonym int32_t = "32 word"
type_synonym long = "64 word"

definition size_t :: "nat \<Rightarrow> nat" where
  "size_t n = n mod 2 ^ 64"

section \<open>Error channel: \<^verbatim>\<open>write_error\<close>\<close>

text \<open>
  A \<^verbatim>\<open>char *\<close> is either null (\<open>None\<close>) or points at memory, modelled as the bytes
  found at each offset from the pointer. A \<^verbatim>\<open>const char *\<close> message is null or a byte
  sequence; \<open>strlen\<close> counts the bytes before the first NUL (the model appends the
  terminator implicitly, so a list without NUL has its own length).
\<close>

type_synonym cmem = "nat \<Rightarrow> char"

definition NUL :: char where
  "NUL = CHR 0x00"

definition strlen :: "string \<Rightarrow> nat" where
  "strlen s = length (takeWhile (\<lambda>c. c \<noteq> NUL) s)"

text \<open>\<^verbatim>\<open>memcpy(dst, msg, n)\<close>: the first \<open>n\<close> bytes of \<open>dst\<close> become those of \<open>msg\<close>.\<close>

definition memcpy_str :: "cmem \<Rightarrow> string \<Rightarrow> nat \<Rightarrow> cmem" where
  "memcpy_str dst msg n = (\<lambda>i. if i < n then msg ! i else dst i)"

definition write_error :: "cmem option \<Rightarrow> nat \<Rightarrow> string option \<Rightarrow> cmem option" where
  "write_error dst max_len msg =
     (case dst of
        None \<Rightarrow> dst
      | Some d \<Rightarrow>
          (case msg of
             None \<Rightarrow> dst
           | Some m \<Rightarrow>
               if max_len = 0 then dst
               else
                 let to_copy = min (max_len - 1) (strlen m)
                 in Some ((memcpy_str d m to_copy)(to_copy := NUL))))"

text \<open>Reading back the bytes at offsets \<open>0 ..< n\<close>.\<close>

definition peek :: "cmem \<Rightarrow> nat \<Rightarrow> string" where
  "peek d n = map d [0..<n]"

section \<open>Saturation: \<^verbatim>\<open>clamp_to_uint16\<close>, \<^verbatim>\<open>clamp_to_uint8\<close>\<close>

text \<open>
  \<^verbatim>\<open>1 << n\<close> on the 32-bit \<^verbatim>\<open>int\<close> literal \<open>1\<close>: the value \<open>2 ^ n\<close> when it is
  representable (\<open>n < 31\<close>); for \<open>n \<ge> 32\<close> the shift is undefined, and for \<open>n = 31\<close> the
  code negates or decrements the result \<^verbatim>\<open>INT_MIN\<close>, which overflows. \<open>None\<close> stands for
  undefined behaviour.
\<close>

definition shl1 :: "nat \<Rightarrow> int option" where
  "shl1 n = (if n < 31 then Some (2 ^ n) else None)"

text \<open>The two consecutive \<^verbatim>\<open>if\<close> statements that every clamp in the file uses.\<close>

definition clamp_between :: "int \<Rightarrow> int \<Rightarrow> int \<Rightarrow> int" where
  "clamp_between min_val max_val value =
     (let value = (if value < min_val then min_val else value);
          value = (if value > max_val then max_val else value)
      in value)"

text \<open>
  \<^verbatim>\<open>bit_depth - 1\<close> is computed in \<^verbatim>\<open>uint32_t\<close>, so depth 0 gives \<open>2 ^ 32 - 1\<close>.
  The casts to \<^verbatim>\<open>int16_t\<close> and \<^verbatim>\<open>uint16_t\<close> keep the low 16 bits (\<open>word_of_int\<close>).
\<close>

definition clamp_to_uint16 :: "int32_t \<Rightarrow> uint32_t \<Rightarrow> bool \<Rightarrow> uint16_t option" where
  "clamp_to_uint16 value bit_depth is_signed =
     (if bit_depth \<ge> 16 \<and> \<not> is_signed then
        Some (word_of_int (clamp_between 0 0xFFFF (sint value)))
      else if is_signed then
        (case shl1 (unat (bit_depth - 1)) of
           None \<Rightarrow> None
         | Some p \<Rightarrow>
             let min_val = - p;
                 max_val = p - 1;
                 signed_val = (word_of_int (clamp_between min_val max_val (sint value)) :: uint16_t)
             in Some signed_val)
      else
        (let max_val = (if bit_depth \<ge> 16 then Some 0xFFFF
                        else map_option (\<lambda>p. p - 1) (shl1 (unat bit_depth)))
         in map_option (\<lambda>m. word_of_int (clamp_between 0 m (sint value))) max_val))"

definition clamp_to_uint8 :: "int32_t \<Rightarrow> uint32_t \<Rightarrow> uint8_t option" where
  "clamp_to_uint8 value bit_depth =
     (let max_val = (if bit_depth \<ge> 8 then Some 0xFF
                     else map_option (\<lambda>p. p - 1) (shl1 (unat bit_depth)))
      in map_option (\<lambda>m. word_of_int (clamp_between 0 m (sint value))) max_val)"

section \<open>Floating-point samples: \<^verbatim>\<open>float_to_uint8\<close>, \<^verbatim>\<open>float_to_uint16\<close>\<close>

text \<open>
  A \<^verbatim>\<open>float\<close> is a finite value (a real number; every binary32 value is one), an
  infinity or a NaN. \<^verbatim>\<open>std::lround\<close> is the C library's: it rounds to the nearest
  integer, halfway cases away from zero, and returns a \<^verbatim>\<open>long\<close>; when the rounded value
  does not fit a \<^verbatim>\<open>long\<close>, or the argument is not finite, the C standard leaves the result
  unspecified, and the model takes it from the parameter \<open>oor\<close>. The cast of the
  \<^verbatim>\<open>long\<close> to \<^verbatim>\<open>int32_t\<close> keeps the low 32 bits.
\<close>

datatype cfloat = Finite real | Infinity bool | NaN

definition round_half_away :: "real \<Rightarrow> int" where
  "round_half_away x = (if 0 \<le> x then \<lfloor>x + 1 / 2\<rfloor> else - \<lfloor>- x + 1 / 2\<rfloor>)"

definition lround :: "(cfloat \<Rightarrow> long) \<Rightarrow> cfloat \<Rightarrow> long" where
  "lround oor value =
     (case value of
        Finite x \<Rightarrow>
          let r = round_half_away x
          in if - (2 ^ 63) \<le> r \<and> r < 2 ^ 63 then word_of_int r else oor value
      | _ \<Rightarrow> oor value)"

definition float_to_uint8 :: "(cfloat \<Rightarrow> long) \<Rightarrow> cfloat \<Rightarrow> uint32_t \<Rightarrow> uint8_t option" where
  "float_to_uint8 oor value bit_depth =
     (let rounded = (ucast (lround oor value) :: int32_t)
      in clamp_to_uint8 rounded bit_depth)"

definition float_to_uint16 :: "(cfloat \<Rightarrow> long) \<Rightarrow> cfloat \<Rightarrow> uint32_t \<Rightarrow> bool \<Rightarrow> uint16_t option" where
  "float_to_uint16 oor value bit_depth is_signed =
     (let rounded = (ucast (lround oor value) :: int32_t)
      in clamp_to_uint16 rounded bit_depth is_signed)"

section \<open>The result entity and its release: \<^verbatim>\<open>ojph_decoded_image\<close>, \<^verbatim>\<open>ojph_free_image\<close>\<close>

text \<open>
  Pixel buffer handles are addresses; \<open>nullptr\<close> is address 0. The C heap maps each
  live allocation's address to its contents. Every effect the wrapper has on its
  surroundings (a call into the decoding engine, a \<^verbatim>\<open>std::vector\<close> allocation, a
  \<^verbatim>\<open>malloc\<close>, a \<^verbatim>\<open>free\<close>) is appended to a trace, in program order.
\<close>

type_synonym ptr = nat

definition nullptr :: ptr where
  "nullptr = 0"

record ojph_decoded_image =
  width :: uint32_t
  height :: uint32_t
  components :: uint16_t
  bit_depth :: uint16_t
  is_signed :: uint8_t
  is_float :: uint8_t
  reserved :: uint16_t
  pixel_count :: nat
  pixels8 :: ptr
  pixels16 :: ptr

datatype ojph_status = OJPH_STATUS_OK | OJPH_STATUS_UNSUPPORTED | OJPH_STATUS_ERROR

datatype block = Block8 "uint8_t list" | Block16 "uint16_t list"

datatype engine_call =
  InfileOpen | EnableResilience | ReadHeaders | AccessSiz | SetPlanar | Create
  | Pull uint32_t | Close | InfileClose

datatype event = Engine engine_call | VectorResize nat | Malloc nat | Free ptr

record world =
  heap :: "ptr \<rightharpoonup> block"
  trace :: "event list"

text \<open>\<^verbatim>\<open>std::memset(image, 0, sizeof(*image))\<close> leaves this value.\<close>

definition zero_image :: ojph_decoded_image where
  "zero_image =
     \<lparr>width = 0, height = 0, components = 0, bit_depth = 0, is_signed = 0, is_float = 0,
      reserved = 0, pixel_count = 0, pixels8 = nullptr, pixels16 = nullptr\<rparr>"

text \<open>
  \<^verbatim>\<open>std::free(p)\<close> for a non-null \<open>p\<close>: releases the live allocation at \<open>p\<close>; when no
  live allocation starts at \<open>p\<close> the behaviour is undefined (\<open>None\<close>).
\<close>

definition free :: "world \<Rightarrow> ptr \<Rightarrow> world option" where
  "free w p =
     (case heap w p of
        None \<Rightarrow> None
      | Some b \<Rightarrow> Some (w\<lparr>heap := (heap w)(p := None), trace := trace w @ [Free p]\<rparr>))"

definition ojph_free_image ::
  "world \<Rightarrow> ojph_decoded_image option \<Rightarrow> (world \<times> ojph_decoded_image option) option" where
  "ojph_free_image w image_p =
     (case image_p of
        None \<Rightarrow> Some (w, None)
      | Some img \<Rightarrow>
          (case (if pixels8 img \<noteq> nullptr then free w (pixels8 img) else Some w) of
             None \<Rightarrow> None
           | Some w1 \<Rightarrow>
               (case (if pixels16 img \<noteq> nullptr then free w1 (pixels16 img) else Some w1) of
                  None \<Rightarrow> None
                | Some w2 \<Rightarrow> Some (w2, Some zero_image))))"

section \<open>The decoding engine, as the wrapper sees it\<close>

text \<open>
  The OpenJPH library is an external collaborator: the model takes what it answers as
  a parameter. \<open>param_siz\<close> holds the accessors the wrapper calls on \<^verbatim>\<open>cs.access_siz()\<close>;
  \<^verbatim>\<open>siz.is_signed(c) != 0\<close> is the boolean \<open>siz_is_signed\<close> and \<^verbatim>\<open>get_downsampling\<close>
  returns the pair \<open>(x, y)\<close> of a \<^verbatim>\<open>point\<close>.

  A \<^verbatim>\<open>line_buf\<close> has a sample count, its flags, of which the wrapper tests
  \<^verbatim>\<open>flags & LFT_INTEGER\<close> and \<^verbatim>\<open>flags & LFT_32BIT\<close>, and the sample array, read as
  \<^verbatim>\<open>si32\<close> or as \<^verbatim>\<open>float\<close> at each index.

  An engine call either returns or throws; what is thrown is a \<^verbatim>\<open>std::exception\<close> with
  its \<^verbatim>\<open>what()\<close> text, or something else. The \<open>n\<close>-th call of \<^verbatim>\<open>cs.pull\<close> (counted from 0)
  that asks for component \<open>c\<close> throws, returns a null line, or returns a line and writes
  the component index the line belongs to into its by-reference argument.
\<close>

datatype thrown = StdException string | OtherException

record param_siz =
  get_num_components :: uint32_t
  get_recon_width :: "uint32_t \<Rightarrow> uint32_t"
  get_recon_height :: "uint32_t \<Rightarrow> uint32_t"
  get_downsampling :: "uint32_t \<Rightarrow> uint32_t \<times> uint32_t"
  get_bit_depth :: "uint32_t \<Rightarrow> uint32_t"
  siz_is_signed :: "uint32_t \<Rightarrow> bool"

record line_buf =
  line_size :: nat
  lft_integer :: bool
  lft_32bit :: bool
  i32 :: "nat \<Rightarrow> int32_t"
  f32 :: "nat \<Rightarrow> cfloat"

datatype pull_result = PullThrows thrown | PullNull | PullLine uint32_t line_buf

text \<open>
  Besides the engine, the environment of a call fixes what the C++ runtime answers:
  whether \<^verbatim>\<open>std::vector::resize\<close> to a given element count throws, which address
  \<^verbatim>\<open>std::malloc\<close> returns for a given byte count (\<open>nullptr\<close> on failure), and what
  \<^verbatim>\<open>std::lround\<close> returns where its result is unspecified.
\<close>

record env =
  read_headers :: "thrown option"
  access_siz :: param_siz
  create :: "thrown option"
  pull :: "nat \<Rightarrow> uint32_t \<Rightarrow> pull_result"
  close :: "thrown option"
  resize :: "nat \<Rightarrow> thrown option"
  malloc :: "nat \<Rightarrow> ptr"
  lround_unspecified :: "cfloat \<Rightarrow> long"

section \<open>Header validation: the component loop of \<^verbatim>\<open>decode_codestream\<close>\<close>

text \<open>
  \<^verbatim>\<open>for (ui32 c = 1; c < num_components; ++c)\<close>: the result is the message of the first
  failing check, or \<open>None\<close> when the loop runs to its end.
\<close>

function validate_components :: "param_siz \<Rightarrow> uint32_t \<Rightarrow> string option" where
  "validate_components siz c =
     (if c < get_num_components siz then
        (if get_recon_width siz c \<noteq> get_recon_width siz 0
            \<or> get_recon_height siz c \<noteq> get_recon_height siz 0 then
           Some ''subsampled components are not yet supported''
         else if fst (get_downsampling siz c) \<noteq> fst (get_downsampling siz 0)
            \<or> snd (get_downsampling siz c) \<noteq> snd (get_downsampling siz 0) then
           Some ''component downsampling mismatch is not supported''
         else if get_bit_depth siz c \<noteq> get_bit_depth siz 0 then
           Some ''mixed component bit depth is not supported''
         else if siz_is_signed siz c \<noteq> siz_is_signed siz 0 then
           Some ''mixed signed/unsigned components are not supported''
         else validate_components siz (c + 1))
      else None)"
  by pat_completeness auto
termination
proof (relation "measure (\<lambda>(siz, c). unat (get_num_components siz) - unat c)")
  show "wf (measure (\<lambda>(siz, c). unat (get_num_components siz) - unat c))" by simp
next
  fix siz :: param_siz and c :: uint32_t
  assume lt: "c < get_num_components siz"
  have below: "unat c < unat (get_num_components siz)"
    using lt by (simp add: word_less_nat_alt)
  have "unat (get_num_components siz) < 2 ^ 32"
    using unsigned_less [of "get_num_components siz"] by simp
  with below have "unat c + unat (1 :: uint32_t) < 2 ^ LENGTH(32)"
    by simp
  then have "unat (c + 1) = unat c + unat (1 :: uint32_t)"
    by (simp only: unat_add_lem)
  with below show "((siz, c + 1), (siz, c))
      \<in> measure (\<lambda>(siz, c). unat (get_num_components siz) - unat c)"
    by simp
qed

section \<open>Line conversion: the body of the pull loop\<close>

record ImageBuffers =
  u8 :: "uint8_t list"
  u16 :: "uint16_t list"

text \<open>
  \<^verbatim>\<open>for (size_t x = 0; x < samples_in_line; ++x) dst[base_index + x * num_components] = conv(src[x])\<close>,
  over the indices \<open>xs\<close> in order. The index is computed in \<^verbatim>\<open>size_t\<close>. A store outside
  the vector's elements is undefined behaviour, and so is a conversion whose shift is
  undefined (\<open>None\<close>).
\<close>

fun store_samples ::
  "(nat \<Rightarrow> 'a option) \<Rightarrow> nat \<Rightarrow> nat \<Rightarrow> nat list \<Rightarrow> 'a list \<Rightarrow> 'a list option" where
  "store_samples conv base_index num_components [] dst = Some dst"
| "store_samples conv base_index num_components (x # xs) dst =
     (case conv x of
        None \<Rightarrow> None
      | Some v \<Rightarrow>
          let i = size_t (base_index + size_t (x * num_components))
          in if i < length dst
             then store_samples conv base_index num_components xs (dst[i := v])
             else None)"

datatype line_result = LineStored ImageBuffers | LineUnsupported | LineUndefined

definition samples_in_line :: "line_buf \<Rightarrow> uint32_t \<Rightarrow> nat" where
  "samples_in_line line width0 = min (line_size line) (unat width0)"

definition base_index :: "uint32_t \<Rightarrow> uint32_t \<Rightarrow> uint32_t \<Rightarrow> uint32_t \<Rightarrow> nat" where
  "base_index row width0 num_components comp_index =
     size_t (size_t (size_t (unat row * unat width0) * unat num_components) + unat comp_index)"

definition process_line ::
  "(cfloat \<Rightarrow> long) \<Rightarrow> uint32_t \<Rightarrow> uint32_t \<Rightarrow> uint32_t \<Rightarrow> bool \<Rightarrow> bool
     \<Rightarrow> uint32_t \<Rightarrow> uint32_t \<Rightarrow> line_buf \<Rightarrow> ImageBuffers \<Rightarrow> line_result" where
  "process_line oor width0 num_components bit_depth0 signed0 output_u8 row comp_index line buffers =
     (let n = samples_in_line line width0;
          b = base_index row width0 num_components comp_index;
          nc = unat num_components
      in
        if lft_integer line then
          (if output_u8 then
             (case store_samples (\<lambda>x. clamp_to_uint8 (i32 line x) bit_depth0) b nc [0..<n] (u8 buffers) of
                None \<Rightarrow> LineUndefined
              | Some dst \<Rightarrow> LineStored (buffers\<lparr>u8 := dst\<rparr>))
           else
             (case store_samples (\<lambda>x. clamp_to_uint16 (i32 line x) bit_depth0 signed0) b nc [0..<n] (u16 buffers) of
                None \<Rightarrow> LineUndefined
              | Some dst \<Rightarrow> LineStored (buffers\<lparr>u16 := dst\<rparr>)))
        else if lft_32bit line then
          (if output_u8 then
             (case store_samples (\<lambda>x. float_to_uint8 oor (f32 line x) bit_depth0) b nc [0..<n] (u8 buffers) of
                None \<Rightarrow> LineUndefined
              | Some dst \<Rightarrow> LineStored (buffers\<lparr>u8 := dst\<rparr>))
           else
             (case store_samples (\<lambda>x. float_to_uint16 oor (f32 line x) bit_depth0 signed0) b nc [0..<n] (u16 buffers) of
                None \<Rightarrow> LineUndefined
              | Some dst \<Rightarrow> LineStored (buffers\<lparr>u16 := dst\<rparr>)))
        else LineUnsupported)"

section \<open>The pull loop\<close>

text \<open>
  Component 0 is canonical: the wrapper reads width, height, bit depth and signedness
  from it, and derives the output element width and the sample count.
\<close>

definition output_u8 :: "param_siz \<Rightarrow> bool" where
  "output_u8 siz = (get_bit_depth siz 0 \<le> 8 \<and> \<not> siz_is_signed siz 0)"

definition total_samples :: "param_siz \<Rightarrow> nat" where
  "total_samples siz =
     size_t (size_t (unat (get_recon_width siz 0) * unat (get_recon_height siz 0))
             * unat (get_num_components siz))"

datatype loop_result =
  LoopDone ImageBuffers world
  | LoopFailed string world
  | LoopThrew thrown world
  | LoopUndefined

text \<open>
  The nested loops \<^verbatim>\<open>for (row ...) for (comp ...)\<close>, one loop test per unit of fuel.
  The engine may change \<^verbatim>\<open>comp\<close> through \<^verbatim>\<open>comp_index\<close>, so the inner loop need not
  terminate: \<open>None\<close> is "no result within the fuel given". \<open>c\<close> is the source's
  \<^verbatim>\<open>comp\<close> and \<open>n\<close> counts the calls of \<^verbatim>\<open>cs.pull\<close> made so far.
\<close>

fun pull_loop ::
  "nat \<Rightarrow> env \<Rightarrow> uint32_t \<Rightarrow> uint32_t \<Rightarrow> nat \<Rightarrow> ImageBuffers \<Rightarrow> world \<Rightarrow> loop_result option" where
  "pull_loop 0 e row c n buffers w = None"
| "pull_loop (Suc fuel) e row c n buffers w =
     (let siz = access_siz e in
      if row < get_recon_height siz 0 then
        (if c < get_num_components siz then
           (let w1 = w\<lparr>trace := trace w @ [Engine (Pull c)]\<rparr> in
            case pull e n c of
              PullThrows ex \<Rightarrow> Some (LoopThrew ex w1)
            | PullNull \<Rightarrow> Some (LoopFailed ''failed to pull line from codestream'' w1)
            | PullLine comp_index line \<Rightarrow>
                (case process_line (lround_unspecified e) (get_recon_width siz 0)
                        (get_num_components siz) (get_bit_depth siz 0) (siz_is_signed siz 0)
                        (output_u8 siz) row comp_index line buffers of
                   LineUndefined \<Rightarrow> Some LoopUndefined
                 | LineUnsupported \<Rightarrow> Some (LoopFailed ''unsupported line buffer layout'' w1)
                 | LineStored buffers' \<Rightarrow>
                     pull_loop fuel e row (comp_index + 1) (n + 1) buffers' w1))
         else pull_loop fuel e (row + 1) 0 n buffers w)
      else Some (LoopDone buffers w))"

section \<open>\<^verbatim>\<open>decode_codestream\<close> and \<^verbatim>\<open>ojph_decode_image\<close>\<close>

datatype decode_result =
  Completed bool ojph_decoded_image "cmem option" world
  | Threw thrown ojph_decoded_image world
  | DecodeUndefined

text \<open>The stores into \<^verbatim>\<open>*out_image\<close> that follow the buffer hand-over.\<close>

definition populate :: "param_siz \<Rightarrow> ojph_decoded_image \<Rightarrow> ojph_decoded_image" where
  "populate siz out_image =
     out_image\<lparr>width := get_recon_width siz 0,
               height := get_recon_height siz 0,
               components := ucast (get_num_components siz),
               bit_depth := ucast (get_bit_depth siz 0),
               is_signed := (if siz_is_signed siz 0 then 1 else 0),
               is_float := 0,
               reserved := 0,
               pixel_count := total_samples siz\<rparr>"

text \<open>
  The tail of \<^verbatim>\<open>decode_codestream\<close>: \<^verbatim>\<open>malloc\<close>, \<^verbatim>\<open>memcpy\<close> and the result entity.
  \<^verbatim>\<open>sizeof(uint16_t)\<close> is 2.
\<close>

definition hand_over ::
  "env \<Rightarrow> ImageBuffers \<Rightarrow> ojph_decoded_image \<Rightarrow> cmem option \<Rightarrow> nat \<Rightarrow> world \<Rightarrow> decode_result" where
  "hand_over e buffers out_image error_message error_length w =
     (let siz = access_siz e in
      if output_u8 siz then
        (let bytes = length (u8 buffers);
             result = malloc e bytes;
             w1 = w\<lparr>trace := trace w @ [Malloc bytes]\<rparr>
         in if result = nullptr then
              Completed False out_image
                (write_error error_message error_length (Some ''memory allocation failure'')) w1
            else
              Completed True
                (populate siz (out_image\<lparr>pixels8 := result, pixels16 := nullptr\<rparr>))
                error_message
                (w1\<lparr>heap := (heap w1)(result \<mapsto> Block8 (u8 buffers))\<rparr>))
      else
        (let bytes = size_t (length (u16 buffers) * 2);
             result = malloc e bytes;
             w1 = w\<lparr>trace := trace w @ [Malloc bytes]\<rparr>
         in if result = nullptr then
              Completed False out_image
                (write_error error_message error_length (Some ''memory allocation failure'')) w1
            else
              Completed True
                (populate siz (out_image\<lparr>pixels8 := nullptr, pixels16 := result\<rparr>))
                error_message
                (w1\<lparr>heap := (heap w1)(result \<mapsto> Block16 (u16 buffers))\<rparr>)))"

text \<open>
  \<^verbatim>\<open>decode_codestream\<close>. The engine calls that do real work (\<^verbatim>\<open>read_headers\<close>,
  \<^verbatim>\<open>create\<close>, \<^verbatim>\<open>pull\<close>, \<^verbatim>\<open>close\<close>) and the vector allocation may throw; the setters and
  accessors are taken to return. \<^verbatim>\<open>resize\<close> value-initialises the elements to 0.
\<close>

definition decode_codestream ::
  "nat \<Rightarrow> env \<Rightarrow> uint8_t list \<Rightarrow> nat \<Rightarrow> ojph_decoded_image \<Rightarrow> cmem option \<Rightarrow> nat \<Rightarrow> world
     \<Rightarrow> decode_result option" where
  "decode_codestream fuel e codestream_data len out_image error_message error_length w =
     (let w1 = w\<lparr>trace := trace w @ [Engine InfileOpen, Engine EnableResilience, Engine ReadHeaders]\<rparr> in
      case read_headers e of
        Some ex \<Rightarrow> Some (Threw ex out_image w1)
      | None \<Rightarrow>
          let siz = access_siz e;
              w2 = w1\<lparr>trace := trace w1 @ [Engine AccessSiz]\<rparr>
          in
          if get_num_components siz = 0 then
            Some (Completed False out_image
                    (write_error error_message error_length (Some ''codestream has no components'')) w2)
          else
            (case validate_components siz 1 of
               Some msg \<Rightarrow>
                 Some (Completed False out_image (write_error error_message error_length (Some msg)) w2)
             | None \<Rightarrow>
                 let w3 = w2\<lparr>trace := trace w2 @ [Engine SetPlanar, Engine Create]\<rparr> in
                 (case create e of
                    Some ex \<Rightarrow> Some (Threw ex out_image w3)
                  | None \<Rightarrow>
                      let total = total_samples siz;
                          w4 = w3\<lparr>trace := trace w3 @ [VectorResize total]\<rparr>
                      in
                      (case resize e total of
                         Some ex \<Rightarrow> Some (Threw ex out_image w4)
                       | None \<Rightarrow>
                           let buffers =
                                 (if output_u8 siz then \<lparr>u8 = replicate total 0, u16 = []\<rparr>
                                  else \<lparr>u8 = [], u16 = replicate total 0\<rparr>)
                           in
                           (case pull_loop fuel e 0 0 0 buffers w4 of
                              None \<Rightarrow> None
                            | Some LoopUndefined \<Rightarrow> Some DecodeUndefined
                            | Some (LoopThrew ex w5) \<Rightarrow> Some (Threw ex out_image w5)
                            | Some (LoopFailed msg w5) \<Rightarrow>
                                Some (Completed False out_image
                                        (write_error error_message error_length (Some msg)) w5)
                            | Some (LoopDone buffers' w5) \<Rightarrow>
                                let w6 = w5\<lparr>trace := trace w5 @ [Engine Close]\<rparr> in
                                (case close e of
                                   Some ex \<Rightarrow> Some (Threw ex out_image w6)
                                 | None \<Rightarrow>
                                     Some (hand_over e buffers' out_image error_message error_length
                                             (w6\<lparr>trace := trace w6 @ [Engine InfileClose]\<rparr>))))))))"

text \<open>
  What a call of \<^verbatim>\<open>ojph_decode_image\<close> leaves behind when it returns: the status, the
  caller's result entity (\<open>None\<close> when the slot pointer is null), the caller's error
  buffer, and the heap and trace.
\<close>

datatype outcome =
  Returned ojph_status "ojph_decoded_image option" "cmem option" world
  | Undefined

text \<open>The text the two \<^verbatim>\<open>catch\<close> clauses pass to \<^verbatim>\<open>write_error\<close>.\<close>

definition what :: "thrown \<Rightarrow> string" where
  "what ex = (case ex of StdException s \<Rightarrow> s | OtherException \<Rightarrow> ''unknown OpenJPH error'')"

definition ojph_decode_image ::
  "nat \<Rightarrow> env \<Rightarrow> uint8_t list option \<Rightarrow> nat \<Rightarrow> ojph_decoded_image option \<Rightarrow> cmem option \<Rightarrow> nat
     \<Rightarrow> world \<Rightarrow> outcome option" where
  "ojph_decode_image fuel e codestream_data len out_image error_message error_length w =
     (case (codestream_data, out_image) of
        (Some bytes, Some img) \<Rightarrow>
          if len = 0 then
            Some (Returned OJPH_STATUS_ERROR out_image
                    (write_error error_message error_length (Some ''invalid arguments'')) w)
          else
            (case decode_codestream fuel e bytes len zero_image error_message error_length w of
               None \<Rightarrow> None
             | Some DecodeUndefined \<Rightarrow> Some Undefined
             | Some (Completed ok img' msg' w') \<Rightarrow>
                 Some (Returned (if ok then OJPH_STATUS_OK else OJPH_STATUS_UNSUPPORTED)
                         (Some img') msg' w')
             | Some (Threw ex img' w') \<Rightarrow>
                 (case ojph_free_image w' (Some img') of
                    None \<Rightarrow> Some Undefined
                  | Some (w'', img'') \<Rightarrow>
                      Some (Returned OJPH_STATUS_ERROR img''
                              (write_error error_message error_length (Some (what ex))) w'')))
      | _ \<Rightarrow>
          Some (Returned OJPH_STATUS_ERROR out_image
                  (write_error error_message error_length (Some ''invalid arguments'')) w))"

section \<open>Notions the properties are stated with\<close>

text \<open>Saturation as the specification words it: the nearest value of \<open>[lo, hi]\<close>.\<close>

definition saturate :: "int \<Rightarrow> int \<Rightarrow> int \<Rightarrow> int" where
  "saturate lo hi v = max lo (min hi v)"

text \<open>
  One admissible \<^verbatim>\<open>lround\<close> for the unspecified cases: \<^verbatim>\<open>LONG_MIN\<close>, which is what the
  x86-64 conversion instruction delivers.
\<close>

definition lround_long_min :: "cfloat \<Rightarrow> long" where
  "lround_long_min value = - (2 ^ 63)"

text \<open>An error buffer whose bytes are all \<open>x\<close> before the call.\<close>

definition buffer_of_x :: cmem where
  "buffer_of_x i = CHR ''x''"

text \<open>
  What \<^verbatim>\<open>free\<close> requires of an entity's handles: each non-null handle is a live
  allocation, and the two handles are not one and the same allocation.
\<close>

definition releasable :: "world \<Rightarrow> ojph_decoded_image \<Rightarrow> bool" where
  "releasable w img =
     ((pixels8 img \<noteq> nullptr \<longrightarrow> heap w (pixels8 img) \<noteq> None)
      \<and> (pixels16 img \<noteq> nullptr \<longrightarrow> heap w (pixels16 img) \<noteq> None)
      \<and> (pixels8 img \<noteq> nullptr \<and> pixels16 img \<noteq> nullptr \<longrightarrow> pixels8 img \<noteq> pixels16 img))"

text \<open>The handle that is set agrees with the output element width.\<close>

definition handles_ok :: "env \<Rightarrow> ojph_decoded_image \<Rightarrow> bool" where
  "handles_ok e img' =
     ((pixels8 img' \<noteq> nullptr) = output_u8 (access_siz e)
      \<and> (pixels16 img' \<noteq> nullptr) = (\<not> output_u8 (access_siz e)))"

text \<open>
  What \<^verbatim>\<open>decode_codestream\<close> does to \<^verbatim>\<open>*out_image\<close>: nothing unless it returns
  \<^verbatim>\<open>true\<close>, and then exactly one handle is set.
\<close>

definition decode_post :: "env \<Rightarrow> ojph_decoded_image \<Rightarrow> decode_result \<Rightarrow> bool" where
  "decode_post e img r =
     (case r of
        Completed ok img' m' w' \<Rightarrow> (\<not> ok \<longrightarrow> img' = img) \<and> (ok \<longrightarrow> handles_ok e img')
      | Threw ex img' w' \<Rightarrow> img' = img
      | DecodeUndefined \<Rightarrow> True)"

subsection \<open>Concrete calls\<close>

text \<open>
  A 2 x 1 image of one unsigned 8-bit component; the engine answers every pull with an
  integer line holding the samples 10 and 300. \<^verbatim>\<open>malloc\<close> returns the address 4096.
\<close>

definition siz_gray8 :: param_siz where
  "siz_gray8 =
     \<lparr>get_num_components = 1, get_recon_width = (\<lambda>c. 2), get_recon_height = (\<lambda>c. 1),
      get_downsampling = (\<lambda>c. (1, 1)), get_bit_depth = (\<lambda>c. 8),
      siz_is_signed = (\<lambda>c. False)\<rparr>"

definition line_gray8 :: line_buf where
  "line_gray8 =
     \<lparr>line_size = 2, lft_integer = True, lft_32bit = True,
      i32 = (\<lambda>x. if x = 0 then 10 else 300), f32 = (\<lambda>x. NaN)\<rparr>"

definition env_gray8 :: env where
  "env_gray8 =
     \<lparr>read_headers = None, access_siz = siz_gray8, create = None,
      pull = (\<lambda>n c. PullLine c line_gray8), close = None, resize = (\<lambda>n. None),
      malloc = (\<lambda>n. 4096), lround_unspecified = lround_long_min\<rparr>"

definition world_empty :: world where
  "world_empty = \<lparr>heap = Map.empty, trace = []\<rparr>"

definition image_gray8 :: ojph_decoded_image where
  "image_gray8 =
     \<lparr>width = 2, height = 1, components = 1, bit_depth = 8, is_signed = 0, is_float = 0,
      reserved = 0, pixel_count = 2, pixels8 = 4096, pixels16 = nullptr\<rparr>"

definition world_gray8 :: world where
  "world_gray8 =
     \<lparr>heap = [4096 \<mapsto> Block8 [10, 255]],
      trace = [Engine InfileOpen, Engine EnableResilience, Engine ReadHeaders, Engine AccessSiz,
               Engine SetPlanar, Engine Create, VectorResize 2, Engine (Pull 0), Engine Close,
               Engine InfileClose, Malloc 2]\<rparr>"

text \<open>The same engine, but \<^verbatim>\<open>read_headers\<close> throws.\<close>

definition env_throwing :: env where
  "env_throwing = env_gray8\<lparr>read_headers := Some (StdException ''bad codestream'')\<rparr>"

text \<open>An entity that still holds a buffer handle from an earlier decode.\<close>

definition image_live :: ojph_decoded_image where
  "image_live = zero_image\<lparr>pixels8 := 4096\<rparr>"

definition world_live :: world where
  "world_live = \<lparr>heap = [4096 \<mapsto> Block8 [10, 255]], trace = []\<rparr>"

text \<open>
  Component \<open>c\<close> passes the first two checks of the validation loop (size and
  downsampling), or all four.
\<close>

definition same_geometry :: "param_siz \<Rightarrow> uint32_t \<Rightarrow> bool" where
  "same_geometry siz c =
     (get_recon_width siz c = get_recon_width siz 0
      \<and> get_recon_height siz c = get_recon_height siz 0
      \<and> get_downsampling siz c = get_downsampling siz 0)"

definition same_format :: "param_siz \<Rightarrow> uint32_t \<Rightarrow> bool" where
  "same_format siz c =
     (same_geometry siz c
      \<and> get_bit_depth siz c = get_bit_depth siz 0
      \<and> siz_is_signed siz c = siz_is_signed siz 0)"

text \<open>
  The interleaved position as the specification words it, and the conversion the
  wrapper applies to sample \<open>x\<close> of a line for each output element width.
\<close>

definition flat_index :: "nat \<Rightarrow> nat \<Rightarrow> nat \<Rightarrow> nat \<Rightarrow> nat \<Rightarrow> nat" where
  "flat_index row width0 num_components x c = row * width0 * num_components + x * num_components + c"

definition convert8 :: "(cfloat \<Rightarrow> long) \<Rightarrow> uint32_t \<Rightarrow> line_buf \<Rightarrow> nat \<Rightarrow> uint8_t option" where
  "convert8 oor d line x =
     (if lft_integer line then clamp_to_uint8 (i32 line x) d
      else float_to_uint8 oor (f32 line x) d)"

definition convert16 ::
  "(cfloat \<Rightarrow> long) \<Rightarrow> uint32_t \<Rightarrow> bool \<Rightarrow> line_buf \<Rightarrow> nat \<Rightarrow> uint16_t option" where
  "convert16 oor d s line x =
     (if lft_integer line then clamp_to_uint16 (i32 line x) d s
      else float_to_uint16 oor (f32 line x) d s)"

text \<open>
  Two components that differ in width and in bit depth, and two that differ in bit
  depth only.
\<close>

definition siz_mixed :: param_siz where
  "siz_mixed =
     \<lparr>get_num_components = 2, get_recon_width = (\<lambda>c. if c = 0 then 2 else 1),
      get_recon_height = (\<lambda>c. 1), get_downsampling = (\<lambda>c. (1, 1)),
      get_bit_depth = (\<lambda>c. if c = 0 then 8 else 12), siz_is_signed = (\<lambda>c. False)\<rparr>"

definition env_mixed :: env where
  "env_mixed = env_gray8\<lparr>access_siz := siz_mixed\<rparr>"

definition siz_depth :: param_siz where
  "siz_depth =
     \<lparr>get_num_components = 2, get_recon_width = (\<lambda>c. 2),
      get_recon_height = (\<lambda>c. 1), get_downsampling = (\<lambda>c. (1, 1)),
      get_bit_depth = (\<lambda>c. if c = 0 then 8 else 12), siz_is_signed = (\<lambda>c. False)\<rparr>"

definition env_depth :: env where
  "env_depth = env_gray8\<lparr>access_siz := siz_depth\<rparr>"

definition trace_of_validation :: "event list" where
  "trace_of_validation =
     [Engine InfileOpen, Engine EnableResilience, Engine ReadHeaders, Engine AccessSiz]"

text \<open>A header of \<open>2^31\<close> by \<open>2^31\<close> pixels in 4 unsigned 8-bit components.\<close>

definition siz_huge :: param_siz where
  "siz_huge =
     \<lparr>get_num_components = 4, get_recon_width = (\<lambda>c. 2147483648),
      get_recon_height = (\<lambda>c. 2147483648), get_downsampling = (\<lambda>c. (1, 1)),
      get_bit_depth = (\<lambda>c. 8), siz_is_signed = (\<lambda>c. False)\<rparr>"

definition env_huge :: env where
  "env_huge = env_gray8\<lparr>access_siz := siz_huge\<rparr>"

text \<open>
  A 2 x 2 image of two unsigned 8-bit components; the \<open>n\<close>-th pull returns an integer
  line with the samples \<open>10 n\<close> and \<open>10 n + 1\<close>.
\<close>

definition siz_two :: param_siz where
  "siz_two =
     \<lparr>get_num_components = 2, get_recon_width = (\<lambda>c. 2), get_recon_height = (\<lambda>c. 2),
      get_downsampling = (\<lambda>c. (1, 1)), get_bit_depth = (\<lambda>c. 8),
      siz_is_signed = (\<lambda>c. False)\<rparr>"

definition line_two :: "nat \<Rightarrow> line_buf" where
  "line_two n =
     \<lparr>line_size = 2, lft_integer = True, lft_32bit = True,
      i32 = (\<lambda>x. of_nat (10 * n + x)), f32 = (\<lambda>x. NaN)\<rparr>"

definition env_two :: env where
  "env_two = env_gray8\<lparr>access_siz := siz_two, pull := (\<lambda>n c. PullLine c (line_two n))\<rparr>"


declare validate_components.simps [simp del]

section \<open>Properties of the saturating conversions\<close>

lemma clamp_between_saturate: "lo \<le> hi \<Longrightarrow> clamp_between lo hi v = saturate lo hi v"
  by (simp add: clamp_between_def saturate_def Let_def max_def min_def)

lemma saturate_range: "lo \<le> hi \<Longrightarrow> lo \<le> saturate lo hi v \<and> saturate lo hi v \<le> hi"
  by (simp add: saturate_def max_def min_def)

lemma uint_uint16_of_range: "0 \<le> k \<Longrightarrow> k \<le> 65535 \<Longrightarrow> uint (word_of_int k :: uint16_t) = k"
  by (simp add: uint_word_of_int take_bit_int_eq_self)

lemma uint_uint8_of_range: "0 \<le> k \<Longrightarrow> k \<le> 255 \<Longrightarrow> uint (word_of_int k :: uint8_t) = k"
  by (simp add: uint_word_of_int take_bit_int_eq_self)

lemma sint_uint16_of_range:
  "- 32768 \<le> k \<Longrightarrow> k \<le> 32767 \<Longrightarrow> sint (word_of_int k :: uint16_t) = k"
  by (simp add: sint_sbintrunc' signed_take_bit_int_eq_self)

lemma two_power_le_65536: "n < 16 \<Longrightarrow> (2::int) ^ n \<le> 65536"
  using power_increasing [of n 16 "2::int"] by simp

lemma two_power_le_256: "n < 8 \<Longrightarrow> (2::int) ^ n \<le> 256"
  using power_increasing [of n 8 "2::int"] by simp

lemma clamp_to_uint16_unsigned_below_16:
  assumes "unat d < 16"
  shows "\<exists>w. clamp_to_uint16 v d False = Some w \<and> uint w = saturate 0 (2 ^ unat d - 1) (sint v)"
proof -
  have nd: "\<not> 16 \<le> d"
    using assms by (simp add: word_le_nat_alt)
  have p: "(2::int) ^ unat d \<le> 65536" "(1::int) \<le> 2 ^ unat d"
    using two_power_le_65536 [OF assms] by simp_all
  have r: "0 \<le> saturate 0 (2 ^ unat d - 1) (sint v)"
    "saturate 0 (2 ^ unat d - 1) (sint v) \<le> 65535"
    using saturate_range [of 0 "2 ^ unat d - 1" "sint v"] p by auto
  show ?thesis
    using assms nd p r
    by (simp add: clamp_to_uint16_def shl1_def clamp_between_saturate uint_uint16_of_range)
qed

lemma clamp_to_uint16_unsigned_from_16:
  assumes "16 \<le> unat d"
  shows "\<exists>w. clamp_to_uint16 v d False = Some w \<and> uint w = saturate 0 65535 (sint v)"
proof -
  have nd: "16 \<le> d"
    using assms by (simp add: word_le_nat_alt)
  have r: "0 \<le> saturate 0 65535 (sint v)" "saturate 0 65535 (sint v) \<le> 65535"
    using saturate_range [of 0 65535 "sint v"] by auto
  show ?thesis
    using nd r by (simp add: clamp_to_uint16_def clamp_between_saturate uint_uint16_of_range)
qed

lemma unat_minus_one_uint32: "1 \<le> unat (d::uint32_t) \<Longrightarrow> unat (d - 1) = unat d - 1"
  by (metis unat_minus_one unat_eq_zero not_one_le_zero)

lemma clamp_to_uint16_signed:
  assumes "1 \<le> unat d" "unat d \<le> 31"
  shows "clamp_to_uint16 v d True =
     Some (word_of_int (saturate (- (2 ^ (unat d - 1))) (2 ^ (unat d - 1) - 1) (sint v)))"
proof -
  have m: "unat (d - 1) = unat d - 1"
    using assms by (simp add: unat_minus_one_uint32)
  have "(1::int) \<le> 2 ^ (unat d - 1)"
    by simp
  then have o: "- ((2::int) ^ (unat d - 1)) \<le> 2 ^ (unat d - 1) - 1"
    by linarith
  show ?thesis
    using assms m o
    by (simp add: clamp_to_uint16_def shl1_def clamp_between_saturate Let_def)
qed

lemma clamp_to_uint16_signed_value:
  assumes "1 \<le> unat d" "unat d \<le> 16"
  shows "\<exists>w. clamp_to_uint16 v d True = Some w
           \<and> sint w = saturate (- (2 ^ (unat d - 1))) (2 ^ (unat d - 1) - 1) (sint v)"
proof -
  let ?p = "(2::int) ^ (unat d - 1)"
  have "unat d - 1 \<le> 15"
    using assms by simp
  then have "?p \<le> 2 ^ 15"
    by (rule power_increasing) simp
  moreover have "1 \<le> ?p"
    by simp
  ultimately have "- 32768 \<le> saturate (- ?p) (?p - 1) (sint v)"
    "saturate (- ?p) (?p - 1) (sint v) \<le> 32767"
    using saturate_range [of "- ?p" "?p - 1" "sint v"] by auto
  then show ?thesis
    using assms clamp_to_uint16_signed [of d v] by (simp add: sint_uint16_of_range)
qed

lemma clamp_to_uint8_saturates:
  "\<exists>b. clamp_to_uint8 v d = Some b \<and> uint b = saturate 0 (min 255 (2 ^ unat d - 1)) (sint v)"
proof (cases "8 \<le> d")
  case True
  then have "8 \<le> unat d"
    by (simp add: word_le_nat_alt)
  then have "(2::int) ^ 8 \<le> 2 ^ unat d"
    by (rule power_increasing) simp
  then have m: "min 255 ((2::int) ^ unat d - 1) = 255"
    by simp
  have r: "0 \<le> saturate 0 255 (sint v)" "saturate 0 255 (sint v) \<le> 255"
    using saturate_range [of 0 255 "sint v"] by auto
  show ?thesis
    using True r by (simp add: clamp_to_uint8_def clamp_between_saturate uint_uint8_of_range m)
next
  case False
  then have lt: "unat d < 8"
    by (simp add: word_le_nat_alt)
  have p: "(2::int) ^ unat d \<le> 256" "(1::int) \<le> 2 ^ unat d"
    using two_power_le_256 [OF lt] by simp_all
  then have m: "min 255 ((2::int) ^ unat d - 1) = 2 ^ unat d - 1"
    by simp
  have r: "0 \<le> saturate 0 (2 ^ unat d - 1) (sint v)"
    "saturate 0 (2 ^ unat d - 1) (sint v) \<le> 255"
    using saturate_range [of 0 "2 ^ unat d - 1" "sint v"] p by auto
  show ?thesis
    using False lt p r
    by (simp add: clamp_to_uint8_def shl1_def clamp_between_saturate uint_uint8_of_range m)
qed

text \<open>
  C3, as written, fails for signed samples of a depth above 16. At depth 20 the stated
  range \<open>[-2^19, 2^19 - 1]\<close> leaves the sample 70000 as it is, and the cast to
  \<^verbatim>\<open>int16_t\<close> keeps its low 16 bits: 4464 is stored, which is not the saturated value.
  At depth 33 \<^verbatim>\<open>clamp_to_uint16\<close> evaluates \<^verbatim>\<open>1 << 32\<close> on a 32-bit \<^verbatim>\<open>int\<close>, which is
  undefined.
\<close>

theorem clamp_to_uint16_signed_above_16_bits:
  "clamp_to_uint16 70000 20 True = Some 4464
   \<and> saturate (- (2 ^ 19)) (2 ^ 19 - 1) (sint (70000 :: int32_t)) = 70000
   \<and> sint (4464 :: uint16_t) = 4464
   \<and> clamp_to_uint16 5 33 True = None"
  by (simp add: clamp_to_uint16_def shl1_def clamp_between_def saturate_def)

text \<open>
  C3, amended: every integer sample \<open>v\<close> is stored saturated, without rounding, to the
  range its depth \<open>d\<close> and signedness give. Unsigned with \<open>d < 16\<close>: \<open>[0, 2^d - 1]\<close>.
  Unsigned with \<open>d \<ge> 16\<close>: \<open>[0, 65535]\<close>. Signed with \<open>1 \<le> d \<le> 16\<close>:
  \<open>[-2^(d-1), 2^(d-1) - 1]\<close>, stored as the two's complement pattern of the clamped
  value in the 16-bit container, so that reading the container as signed gives the
  clamped value. The 8-bit path: \<open>[0, min(255, 2^d - 1)]\<close>, for every depth. Nothing is
  stated for signed samples of depth 0 or of a depth above 16.
\<close>

theorem clamp_saturates_to_depth_range:
  "(unat d < 16 \<longrightarrow>
      (\<exists>w. clamp_to_uint16 v d False = Some w \<and> uint w = saturate 0 (2 ^ unat d - 1) (sint v)))
   \<and> (16 \<le> unat d \<longrightarrow>
      (\<exists>w. clamp_to_uint16 v d False = Some w \<and> uint w = saturate 0 65535 (sint v)))
   \<and> (1 \<le> unat d \<and> unat d \<le> 16 \<longrightarrow>
      (\<exists>w. clamp_to_uint16 v d True = Some w
         \<and> sint w = saturate (- (2 ^ (unat d - 1))) (2 ^ (unat d - 1) - 1) (sint v)))
   \<and> (\<exists>b. clamp_to_uint8 v d = Some b
         \<and> uint b = saturate 0 (min 255 (2 ^ unat d - 1)) (sint v))"
  using clamp_to_uint16_unsigned_below_16 [of d v] clamp_to_uint16_unsigned_from_16 [of d v]
    clamp_to_uint16_signed_value [of d v] clamp_to_uint8_saturates [of v d]
  by blast

text \<open>
  The theorem at depth 12 with the sample 5000, at depth 16 with the samples 70000,
  \<open>-1\<close> and \<open>-40000\<close>, and at depth 8 with the sample 300: unsigned 12-bit stores 4095,
  unsigned 16-bit stores 65535, signed 16-bit stores \<open>-1\<close> as \<open>0xFFFF\<close> and \<open>-40000\<close> as
  \<open>0x8000\<close> (that is \<open>-32768\<close>), and the 8-bit path stores 255.
\<close>

theorem clamp_saturates_to_depth_range_witness:
  "clamp_to_uint16 5000 12 False = Some 4095
   \<and> clamp_to_uint16 70000 16 False = Some 65535
   \<and> clamp_to_uint16 (- 1) 16 True = Some 0xFFFF
   \<and> clamp_to_uint16 (- 40000) 16 True = Some 0x8000
   \<and> clamp_to_uint8 300 8 = Some 255"
proof -
  have a: "\<exists>w. clamp_to_uint16 5000 12 False = Some w \<and> uint w = uint (4095 :: uint16_t)"
    using clamp_saturates_to_depth_range [of 12 5000] by (simp add: saturate_def)
  have b: "\<exists>w. clamp_to_uint16 70000 16 False = Some w \<and> uint w = uint (65535 :: uint16_t)"
    using clamp_saturates_to_depth_range [of 16 70000] by (simp add: saturate_def)
  have c: "\<exists>w. clamp_to_uint16 (- 1) 16 True = Some w \<and> sint w = sint (0xFFFF :: uint16_t)"
    using clamp_saturates_to_depth_range [of 16 "- 1"] by (simp add: saturate_def)
  have c2: "\<exists>w. clamp_to_uint16 (- 40000) 16 True = Some w \<and> sint w = sint (0x8000 :: uint16_t)"
    using clamp_saturates_to_depth_range [of 16 "- 40000"] by (simp add: saturate_def)
  have d: "\<exists>b. clamp_to_uint8 300 8 = Some b \<and> uint b = uint (255 :: uint8_t)"
    using clamp_saturates_to_depth_range [of 8 300] by (simp add: saturate_def)
  from a have a': "clamp_to_uint16 5000 12 False = Some 4095"
    by (auto simp only: word_uint_eq_iff [symmetric])
  from b have b': "clamp_to_uint16 70000 16 False = Some 65535"
    by (auto simp only: word_uint_eq_iff [symmetric])
  from c obtain w where w: "clamp_to_uint16 (- 1) 16 True = Some w"
    "sint w = sint (0xFFFF :: uint16_t)"
    by blast
  from w(2) have "w = 0xFFFF"
    by (rule signed_word_eqI)
  with w(1) have c': "clamp_to_uint16 (- 1) 16 True = Some 0xFFFF"
    by simp
  from c2 obtain u where u: "clamp_to_uint16 (- 40000) 16 True = Some u"
    "sint u = sint (0x8000 :: uint16_t)"
    by blast
  from u(2) have "u = 0x8000"
    by (rule signed_word_eqI)
  with u(1) have c2': "clamp_to_uint16 (- 40000) 16 True = Some 0x8000"
    by simp
  from d have d': "clamp_to_uint8 300 8 = Some 255"
    by (auto simp only: word_uint_eq_iff [symmetric])
  from a' b' c' c2' d' show ?thesis
    by simp
qed

section \<open>Properties of the floating-point path\<close>

lemma round_half_away_nearest: "\<bar>of_int (round_half_away x) - x\<bar> \<le> 1 / 2"
proof (cases "0 \<le> x")
  case True
  then have eq: "round_half_away x = \<lfloor>x + 1 / 2\<rfloor>"
    by (simp add: round_half_away_def)
  have "of_int \<lfloor>x + 1 / 2\<rfloor> \<le> x + 1 / 2" "x + 1 / 2 < of_int \<lfloor>x + 1 / 2\<rfloor> + 1"
    by linarith+
  then show ?thesis
    unfolding eq by linarith
next
  case False
  then have eq: "round_half_away x = - \<lfloor>- x + 1 / 2\<rfloor>"
    by (simp add: round_half_away_def)
  have "of_int \<lfloor>- x + 1 / 2\<rfloor> \<le> - x + 1 / 2" "- x + 1 / 2 < of_int \<lfloor>- x + 1 / 2\<rfloor> + 1"
    by linarith+
  then show ?thesis
    unfolding eq of_int_minus by linarith
qed

lemma round_half_away_tie:
  assumes "\<bar>of_int (round_half_away x) - x\<bar> = 1 / 2"
  shows "\<bar>x\<bar> < \<bar>of_int (round_half_away x)\<bar>"
proof (cases "0 \<le> x")
  case True
  then have eq: "round_half_away x = \<lfloor>x + 1 / 2\<rfloor>"
    by (simp add: round_half_away_def)
  have "of_int \<lfloor>x + 1 / 2\<rfloor> \<le> x + 1 / 2" "x + 1 / 2 < of_int \<lfloor>x + 1 / 2\<rfloor> + 1"
    by linarith+
  with True assms show ?thesis
    unfolding eq by linarith
next
  case False
  then have eq: "round_half_away x = - \<lfloor>- x + 1 / 2\<rfloor>"
    by (simp add: round_half_away_def)
  have "of_int \<lfloor>- x + 1 / 2\<rfloor> \<le> - x + 1 / 2" "- x + 1 / 2 < of_int \<lfloor>- x + 1 / 2\<rfloor> + 1"
    by linarith+
  with False assms show ?thesis
    unfolding eq of_int_minus by linarith
qed

lemma ucast_long_of_int: "(ucast (word_of_int r :: long) :: int32_t) = word_of_int r"
  by (rule bit_word_eqI) (auto simp: bit_simps)

lemma sint_int32_of_range:
  "- (2 ^ 31) \<le> r \<Longrightarrow> r < 2 ^ 31 \<Longrightarrow> sint (word_of_int r :: int32_t) = r"
  by (simp add: sint_sbintrunc' signed_take_bit_int_eq_self)

lemma float_within_int32:
  assumes "- (2 ^ 31) \<le> round_half_away x" "round_half_away x < 2 ^ 31"
  shows "\<exists>w::int32_t. sint w = round_half_away x
           \<and> float_to_uint16 oor (Finite x) d s = clamp_to_uint16 w d s
           \<and> float_to_uint8 oor (Finite x) d = clamp_to_uint8 w d"
proof -
  let ?r = "round_half_away x"
  have "lround oor (Finite x) = word_of_int ?r"
    using assms by (simp add: lround_def Let_def)
  then have "(ucast (lround oor (Finite x)) :: int32_t) = word_of_int ?r"
    by (simp add: ucast_long_of_int)
  then show ?thesis
    using assms
    by (intro exI [of _ "word_of_int ?r"])
       (simp add: float_to_uint16_def float_to_uint8_def sint_int32_of_range)
qed

lemma float_127_5: "float_to_uint8 oor (Finite (255 / 2)) 8 = Some 128"
  by (simp add: float_to_uint8_def lround_def round_half_away_def clamp_to_uint8_def
      clamp_between_def)

text \<open>
  C4, as written, fails: the \<^verbatim>\<open>float\<close> \<open>2^32\<close> at unsigned depth 8 rounds to \<open>2^32\<close>,
  which saturates to 255; the code narrows the rounded \<^verbatim>\<open>long\<close> to \<^verbatim>\<open>int32_t\<close> before
  it clamps, which leaves 0, and stores 0.
\<close>

theorem float_to_uint8_narrows_before_clamp:
  "float_to_uint8 lround_long_min (Finite 4294967296) 8 = Some 0
   \<and> (word_of_int (saturate 0 (min 255 (2 ^ 8 - 1)) (round_half_away 4294967296)) :: uint8_t) = 255"
  by (simp add: float_to_uint8_def lround_def round_half_away_def clamp_to_uint8_def
      clamp_between_def saturate_def)

text \<open>
  C4, amended: \<^verbatim>\<open>lround\<close> gives the nearest integer, a tie going away from zero; for
  every finite floating-point sample whose rounded value fits \<^verbatim>\<open>int32_t\<close>, the stored
  output is the integer path's clamp, for the same depth and signedness, of that rounded
  value; a sample of 127.5 at unsigned depth 8 is stored as 128. Nothing is stated for
  samples that round outside \<^verbatim>\<open>int32_t\<close>, infinities and NaN.
\<close>

theorem float_rounds_half_away_then_clamps:
  "\<bar>of_int (round_half_away x) - x\<bar> \<le> 1 / 2
   \<and> (\<bar>of_int (round_half_away x) - x\<bar> = 1 / 2 \<longrightarrow> \<bar>x\<bar> < \<bar>of_int (round_half_away x)\<bar>)
   \<and> (- (2 ^ 31) \<le> round_half_away x \<and> round_half_away x < 2 ^ 31 \<longrightarrow>
        (\<exists>w::int32_t. sint w = round_half_away x
           \<and> float_to_uint16 oor (Finite x) d s = clamp_to_uint16 w d s
           \<and> float_to_uint8 oor (Finite x) d = clamp_to_uint8 w d))
   \<and> float_to_uint8 oor (Finite (255 / 2)) 8 = Some 128"
  using round_half_away_nearest [of x] round_half_away_tie [of x]
    float_within_int32 [of x oor d s] float_127_5 [of oor]
  by blast

text \<open>
  The theorem at the sample \<open>-2.5\<close>, signed depth 16: a tie, rounded away from zero to
  \<open>-3\<close>, inside \<^verbatim>\<open>int32_t\<close>, and stored as the integer path stores \<open>-3\<close>.
\<close>

theorem float_rounds_half_away_then_clamps_witness:
  "round_half_away (- (5 / 2)) = - 3
   \<and> \<bar>- (5 / 2) :: real\<bar> < \<bar>of_int (round_half_away (- (5 / 2)))\<bar>
   \<and> float_to_uint16 lround_long_min (Finite (- (5 / 2))) 16 True = clamp_to_uint16 (- 3) 16 True
   \<and> float_to_uint8 lround_long_min (Finite (- (5 / 2))) 16 = clamp_to_uint8 (- 3) 16"
proof -
  have r: "round_half_away (- (5 / 2)) = - 3"
    by (simp add: round_half_away_def)
  note t = float_rounds_half_away_then_clamps [of "- (5 / 2)" lround_long_min 16 True]
  have tie: "\<bar>- (5 / 2) :: real\<bar> < \<bar>of_int (round_half_away (- (5 / 2)))\<bar>"
    using t by (simp add: r)
  have "\<exists>w::int32_t. sint w = sint (- 3 :: int32_t)
          \<and> float_to_uint16 lround_long_min (Finite (- (5 / 2))) 16 True = clamp_to_uint16 w 16 True
          \<and> float_to_uint8 lround_long_min (Finite (- (5 / 2))) 16 = clamp_to_uint8 w 16"
    using t by (simp add: r)
  then obtain w :: int32_t where w: "sint w = sint (- 3 :: int32_t)"
    and s: "float_to_uint16 lround_long_min (Finite (- (5 / 2))) 16 True = clamp_to_uint16 w 16 True"
      "float_to_uint8 lround_long_min (Finite (- (5 / 2))) 16 = clamp_to_uint8 w 16"
    by blast
  from w have "w = - 3"
    by (rule signed_word_eqI)
  with r tie s show ?thesis
    by simp
qed

section \<open>Properties of the error channel\<close>

lemma strlen_le_length: "strlen m \<le> length m"
  by (simp add: strlen_def length_takeWhile_le)

lemma take_within_strlen:
  assumes "k \<le> strlen m"
  shows "NUL \<notin> set (take k m)"
proof -
  let ?P = "\<lambda>c. c \<noteq> NUL"
  have "take k m = take k (take (strlen m) m)"
    using assms by (simp add: min_def)
  also have "take (strlen m) m = takeWhile ?P m"
    by (simp add: strlen_def takeWhile_eq_take [symmetric])
  finally have "set (take k m) \<subseteq> set (takeWhile ?P m)"
    by (simp add: set_take_subset)
  then show ?thesis
    by (auto dest: set_takeWhileD)
qed

lemma peek_memcpy_str: "k \<le> length m \<Longrightarrow> peek ((memcpy_str d m k)(k := c)) k = take k m"
  by (auto simp: peek_def memcpy_str_def list_eq_iff_nth_eq)

lemma write_error_copies:
  assumes "0 < n"
  shows "\<exists>d'. write_error (Some d) n (Some m) = Some d'
           \<and> peek d' (min (n - 1) (strlen m)) = take (min (n - 1) (strlen m)) m
           \<and> d' (min (n - 1) (strlen m)) = NUL
           \<and> (\<forall>i. min (n - 1) (strlen m) < i \<longrightarrow> d' i = d i)"
proof -
  let ?k = "min (n - 1) (strlen m)"
  have "?k \<le> length m"
    using strlen_le_length [of m] by simp
  then show ?thesis
    using assms
    by (simp add: write_error_def Let_def peek_memcpy_str) (auto simp: memcpy_str_def)
qed

text \<open>
  C8: for every destination, capacity and message, \<^verbatim>\<open>write_error\<close> writes nothing when the
  destination is null or the capacity is zero; otherwise the destination's first bytes
  are the message cut to at most \<open>capacity - 1\<close> bytes (none of them NUL), a NUL follows,
  and every byte after that NUL is as it was.
\<close>

theorem write_error_truncates_and_terminates:
  "write_error None max_len msg = None
   \<and> write_error (Some d) 0 msg = Some d
   \<and> (0 < max_len \<longrightarrow>
        (\<exists>d'. write_error (Some d) max_len (Some m) = Some d'
           \<and> min (max_len - 1) (strlen m) \<le> max_len - 1
           \<and> peek d' (min (max_len - 1) (strlen m)) = take (min (max_len - 1) (strlen m)) m
           \<and> NUL \<notin> set (take (min (max_len - 1) (strlen m)) m)
           \<and> d' (min (max_len - 1) (strlen m)) = NUL
           \<and> (\<forall>i. min (max_len - 1) (strlen m) < i \<longrightarrow> d' i = d i)))"
proof -
  have 1: "write_error None max_len msg = None"
    by (simp add: write_error_def)
  have 2: "write_error (Some d) 0 msg = Some d"
    by (simp add: write_error_def split: option.splits)
  have 3: "NUL \<notin> set (take (min (max_len - 1) (strlen m)) m)"
    by (rule take_within_strlen) simp
  show ?thesis
    using 1 2 3 write_error_copies [of max_len d m] by auto
qed

text \<open>
  The theorem at capacity 5 with the message \<open>invalid arguments\<close>: four bytes of the
  message, the terminator, and the sixth byte of the buffer untouched.
\<close>

theorem write_error_truncates_and_terminates_witness:
  "\<exists>d'. write_error (Some buffer_of_x) 5 (Some ''invalid arguments'') = Some d'
     \<and> peek d' 4 = ''inva'' \<and> d' 4 = NUL \<and> d' 5 = CHR ''x''"
proof -
  have k: "min 4 (strlen ''invalid arguments'') = 4"
    by (simp add: strlen_def NUL_def)
  show ?thesis
    using write_error_truncates_and_terminates [of 5 None buffer_of_x "''invalid arguments''"]
    by (auto simp: k buffer_of_x_def)
qed

section \<open>Properties of \<^verbatim>\<open>ojph_decode_image\<close>\<close>

lemma free_zero_image: "ojph_free_image w (Some zero_image) = Some (w, Some zero_image)"
  by (simp add: ojph_free_image_def zero_image_def)

lemma populate_handles:
  "pixels8 (populate siz img) = pixels8 img" "pixels16 (populate siz img) = pixels16 img"
  by (simp_all add: populate_def)

lemma hand_over_post: "decode_post e img (hand_over e b img em el w)"
proof (cases "output_u8 (access_siz e)")
  case True
  then show ?thesis
    by (cases "malloc e (length (u8 b)) = nullptr")
       (simp_all add: hand_over_def Let_def populate_handles handles_ok_def decode_post_def)
next
  case False
  then show ?thesis
    by (cases "malloc e (size_t (length (u16 b) * 2)) = nullptr")
       (simp_all add: hand_over_def Let_def populate_handles handles_ok_def decode_post_def)
qed

lemma decode_post_simps:
  "decode_post e img (Completed False img' m' w') = (img' = img)"
  "decode_post e img (Threw ex img' w') = (img' = img)"
  "decode_post e img DecodeUndefined"
  by (simp_all add: decode_post_def)

lemma decode_codestream_post:
  assumes "decode_codestream fuel e bytes len img em el w = Some r"
  shows "decode_post e img r"
proof (cases "read_headers e")
  case (Some ex)
  with assms show ?thesis
    by (auto simp: decode_codestream_def Let_def decode_post_simps)
next
  case rh: None
  show ?thesis
  proof (cases "get_num_components (access_siz e) = 0")
    case True
    with assms rh show ?thesis
      by (auto simp: decode_codestream_def Let_def decode_post_simps)
  next
    case nc: False
    show ?thesis
    proof (cases "validate_components (access_siz e) 1")
      case (Some msg)
      with assms rh nc show ?thesis
        by (auto simp: decode_codestream_def Let_def decode_post_simps)
    next
      case vc: None
      show ?thesis
      proof (cases "create e")
        case (Some ex)
        with assms rh nc vc show ?thesis
          by (auto simp: decode_codestream_def Let_def decode_post_simps)
      next
        case cr: None
        show ?thesis
        proof (cases "resize e (total_samples (access_siz e))")
          case (Some ex)
          with assms rh nc vc cr show ?thesis
            by (auto simp: decode_codestream_def Let_def decode_post_simps)
        next
          case rs: None
          from assms rh nc vc cr rs show ?thesis
            by (auto simp: decode_codestream_def Let_def decode_post_simps hand_over_post
                split: option.splits loop_result.splits)
        qed
      qed
    qed
  qed
qed

lemma invalid_arguments:
  assumes "codestream_data = None \<or> len = 0 \<or> out_image = None"
  shows "ojph_decode_image fuel e codestream_data len out_image em el w
     = Some (Returned OJPH_STATUS_ERROR out_image
               (write_error em el (Some ''invalid arguments'')) w)"
  using assms by (auto simp: ojph_decode_image_def split: option.splits)

subsection \<open>The concrete calls, evaluated\<close>

lemma env_gray8_simps:
  "access_siz env_gray8 = siz_gray8" "read_headers env_gray8 = None" "create env_gray8 = None"
  "close env_gray8 = None" "resize env_gray8 n = None" "malloc env_gray8 n = 4096"
  "pull env_gray8 n c = PullLine c line_gray8" "lround_unspecified env_gray8 = lround_long_min"
  by (simp_all add: env_gray8_def)

lemma siz_gray8_simps:
  "get_num_components siz_gray8 = 1" "get_recon_width siz_gray8 c = 2"
  "get_recon_height siz_gray8 c = 1" "get_bit_depth siz_gray8 c = 8"
  "siz_is_signed siz_gray8 c = False" "total_samples siz_gray8 = 2" "output_u8 siz_gray8"
  "validate_components siz_gray8 1 = None"
  by (simp_all add: siz_gray8_def total_samples_def output_u8_def size_t_def
      validate_components.simps)

lemma process_line_gray8:
  "process_line oor 2 1 8 False True 0 0 line_gray8 \<lparr>u8 = [0, 0], u16 = []\<rparr>
     = LineStored \<lparr>u8 = [10, 255], u16 = []\<rparr>"
  by (simp add: process_line_def samples_in_line_def base_index_def size_t_def line_gray8_def
      upt_rec clamp_to_uint8_def clamp_between_def)

lemma pull_loop_gray8:
  "pull_loop 3 env_gray8 0 0 0 \<lparr>u8 = [0, 0], u16 = []\<rparr> w
     = Some (LoopDone \<lparr>u8 = [10, 255], u16 = []\<rparr> (w\<lparr>trace := trace w @ [Engine (Pull 0)]\<rparr>))"
  by (simp add: numeral_3_eq_3 Let_def env_gray8_simps siz_gray8_simps process_line_gray8)

lemma populate_gray8:
  "populate siz_gray8 (zero_image\<lparr>pixels8 := 4096, pixels16 := 0\<rparr>) = image_gray8"
  by (simp add: populate_def siz_gray8_simps zero_image_def image_gray8_def nullptr_def)

lemma hand_over_gray8:
  "hand_over env_gray8 \<lparr>u8 = [10, 255], u16 = []\<rparr> zero_image None 0 w
     = Completed True image_gray8 None
         (w\<lparr>trace := trace w @ [Malloc 2], heap := (heap w)(4096 \<mapsto> Block8 [10, 255])\<rparr>)"
  by (simp add: hand_over_def Let_def env_gray8_simps siz_gray8_simps populate_gray8 nullptr_def)

lemma replicate_two: "replicate 2 x = [x, x]"
  by (simp add: numeral_2_eq_2)

lemma decode_codestream_gray8:
  "decode_codestream 3 env_gray8 [0xFF, 0x4F] 2 zero_image None 0 world_empty
     = Some (Completed True image_gray8 None world_gray8)"
  by (simp add: decode_codestream_def Let_def env_gray8_simps siz_gray8_simps replicate_two
      pull_loop_gray8 hand_over_gray8 world_empty_def world_gray8_def)

lemma decode_gray8:
  "ojph_decode_image 3 env_gray8 (Some [0xFF, 0x4F]) 2 (Some image_live) None 0 world_empty
     = Some (Returned OJPH_STATUS_OK (Some image_gray8) None world_gray8)"
  by (simp add: ojph_decode_image_def decode_codestream_gray8)

lemma decode_throwing:
  "ojph_decode_image 0 env_throwing (Some [0xFF, 0x4F]) 2 (Some image_live) None 0 world_live
     = Some (Returned OJPH_STATUS_ERROR (Some zero_image) None
               (world_live\<lparr>trace := [Engine InfileOpen, Engine EnableResilience, Engine ReadHeaders]\<rparr>))"
  by (simp add: ojph_decode_image_def decode_codestream_def Let_def env_throwing_def
      free_zero_image write_error_def world_live_def)

text \<open>
  C1: whenever \<^verbatim>\<open>ojph_decode_image\<close> returns \<^verbatim>\<open>OJPH_STATUS_OK\<close>, exactly one of the two
  handles of the result entity is non-null, and it is \<^verbatim>\<open>pixels8\<close> if and only if the
  canonical bit depth is at most 8 and the samples are unsigned.
\<close>

theorem ok_sets_exactly_one_handle:
  assumes "ojph_decode_image fuel e codestream_data len out_image em el w
             = Some (Returned OJPH_STATUS_OK out' em' w')"
  shows "\<exists>img. out' = Some img
           \<and> (pixels8 img \<noteq> nullptr) \<noteq> (pixels16 img \<noteq> nullptr)
           \<and> (pixels8 img \<noteq> nullptr)
               = (unat (get_bit_depth (access_siz e) 0) \<le> 8 \<and> \<not> siz_is_signed (access_siz e) 0)"
proof -
  from assms obtain bytes img0
    where a: "codestream_data = Some bytes" "out_image = Some img0" "len \<noteq> 0"
    by (auto simp: ojph_decode_image_def split: option.splits if_splits)
  from assms a obtain r where r: "decode_codestream fuel e bytes len zero_image em el w = Some r"
    by (auto simp: ojph_decode_image_def split: option.splits)
  from assms a r obtain img where i: "r = Completed True img em' w'" "out' = Some img"
    by (cases r) (auto simp: ojph_decode_image_def split: option.splits if_splits)
  from decode_codestream_post [OF r] i have "handles_ok e img"
    by (simp add: decode_post_def)
  with i show ?thesis
    by (auto simp: handles_ok_def output_u8_def word_le_nat_alt)
qed

text \<open>The theorem at the 8-bit call: the call returns OK and only \<^verbatim>\<open>pixels8\<close> is set.\<close>

theorem ok_sets_exactly_one_handle_witness:
  "ojph_decode_image 3 env_gray8 (Some [0xFF, 0x4F]) 2 (Some image_live) None 0 world_empty
     = Some (Returned OJPH_STATUS_OK (Some image_gray8) None world_gray8)
   \<and> pixels8 image_gray8 \<noteq> nullptr \<and> pixels16 image_gray8 = nullptr
   \<and> unat (get_bit_depth (access_siz env_gray8) 0) \<le> 8
   \<and> \<not> siz_is_signed (access_siz env_gray8) 0"
  using ok_sets_exactly_one_handle [OF decode_gray8] decode_gray8
  by (simp add: env_gray8_simps siz_gray8_simps image_gray8_def nullptr_def)

text \<open>
  C2, as written, fails on the invalid-argument path: a call with a null codestream
  pointer returns ERROR and leaves the caller's entity as it was, here with its
  \<^verbatim>\<open>pixels8\<close> handle still non-null.
\<close>

theorem invalid_arguments_keep_handle:
  "ojph_decode_image 0 env_gray8 None 0 (Some image_live) None 0 world_live
     = Some (Returned OJPH_STATUS_ERROR (Some image_live) None world_live)
   \<and> pixels8 image_live \<noteq> nullptr"
  by (simp add: ojph_decode_image_def write_error_def image_live_def nullptr_def)

text \<open>
  C2, amended: whenever a call whose arguments pass the argument check (codestream
  pointer and result slot non-null, length non-zero) returns a status other than OK, the
  result entity is all zero on return, both handles null, whichever failure path was
  taken.
\<close>

theorem failure_leaves_entity_zeroed:
  assumes "ojph_decode_image fuel e (Some bytes) len (Some img0) em el w
             = Some (Returned st out' em' w')"
    and "len \<noteq> 0" and "st \<noteq> OJPH_STATUS_OK"
  shows "out' = Some zero_image
           \<and> pixels8 zero_image = nullptr \<and> pixels16 zero_image = nullptr"
proof -
  from assms obtain r where r: "decode_codestream fuel e bytes len zero_image em el w = Some r"
    by (auto simp: ojph_decode_image_def split: option.splits)
  note p = decode_codestream_post [OF r]
  have "out' = Some zero_image"
  proof (cases r)
    case (Completed ok img m' w1)
    with assms r p show ?thesis
      by (cases ok) (auto simp: ojph_decode_image_def decode_post_def)
  next
    case (Threw ex img w1)
    with assms r p show ?thesis
      by (auto simp: ojph_decode_image_def decode_post_def free_zero_image)
  next
    case DecodeUndefined
    with assms r show ?thesis
      by (auto simp: ojph_decode_image_def)
  qed
  then show ?thesis
    by (simp add: zero_image_def)
qed

text \<open>
  The theorem at the call whose \<^verbatim>\<open>read_headers\<close> throws: ERROR, and the entity that held
  a handle before the call is all zero after it.
\<close>

theorem failure_leaves_entity_zeroed_witness:
  "ojph_decode_image 0 env_throwing (Some [0xFF, 0x4F]) 2 (Some image_live) None 0 world_live
     = Some (Returned OJPH_STATUS_ERROR (Some zero_image) None
               (world_live\<lparr>trace := [Engine InfileOpen, Engine EnableResilience, Engine ReadHeaders]\<rparr>))
   \<and> (2::nat) \<noteq> 0 \<and> OJPH_STATUS_ERROR \<noteq> OJPH_STATUS_OK
   \<and> pixels8 image_live \<noteq> nullptr
   \<and> pixels8 zero_image = nullptr \<and> pixels16 zero_image = nullptr"
  using failure_leaves_entity_zeroed [OF decode_throwing] decode_throwing
  by (simp add: image_live_def nullptr_def)

text \<open>
  C6: a call with a null codestream pointer, a zero length or a null result slot returns
  ERROR and hands \<open>invalid arguments\<close> to the error channel; the heap and the trace are
  those of before the call, so no engine call and no allocation has happened, and the
  result slot is as it was.
\<close>

theorem invalid_arguments_rejected_first:
  assumes "codestream_data = None \<or> len = 0 \<or> out_image = None"
  shows "ojph_decode_image fuel e codestream_data len out_image em el w
     = Some (Returned OJPH_STATUS_ERROR out_image
               (write_error em el (Some ''invalid arguments'')) w)"
  using assms by (rule invalid_arguments)

text \<open>The theorem at a call with a null result slot and a 32-byte error buffer.\<close>

theorem invalid_arguments_rejected_first_witness:
  "\<exists>d'. ojph_decode_image 0 env_gray8 (Some [0xFF, 0x4F]) 2 None (Some buffer_of_x) 32 world_live
           = Some (Returned OJPH_STATUS_ERROR None (Some d') world_live)
         \<and> peek d' 18 = ''invalid arguments'' @ [NUL]"
proof -
  have "strlen ''invalid arguments'' = 17"
    by (simp add: strlen_def NUL_def)
  then have "write_error (Some buffer_of_x) 32 (Some ''invalid arguments'')
          = Some ((memcpy_str buffer_of_x ''invalid arguments'' 17)(17 := NUL))"
    by (simp add: write_error_def)
  moreover have "peek ((memcpy_str buffer_of_x ''invalid arguments'' 17)(17 := NUL)) 18
          = ''invalid arguments'' @ [NUL]"
    by (simp add: peek_def memcpy_str_def upt_rec)
  ultimately show ?thesis
    using invalid_arguments_rejected_first
      [of "Some [0xFF, 0x4F]" 2 None 0 env_gray8 "Some buffer_of_x" 32 world_live]
    by simp
qed

text \<open>
  C10: when the codestream pointer is null or the length is zero and the result slot is
  not null, the call returns ERROR and the caller's entity holds after the call what it
  held before: it is not zeroed.
\<close>

theorem invalid_arguments_leave_entity_untouched:
  assumes "codestream_data = None \<or> len = 0"
  shows "\<exists>em'. ojph_decode_image fuel e codestream_data len (Some img) em el w
           = Some (Returned OJPH_STATUS_ERROR (Some img) em' w)"
  using assms invalid_arguments [of codestream_data len "Some img" fuel e em el w]
  by blast

text \<open>The theorem at a zero-length call on an entity that holds a handle.\<close>

theorem invalid_arguments_leave_entity_untouched_witness:
  "(\<exists>em'. ojph_decode_image 3 env_gray8 (Some [0xFF, 0x4F]) 0 (Some image_live) None 0 world_live
           = Some (Returned OJPH_STATUS_ERROR (Some image_live) em' world_live))
   \<and> pixels8 image_live = 4096"
  using invalid_arguments_leave_entity_untouched
    [of "Some [0xFF, 0x4F]" 0 3 env_gray8 image_live None 0 world_live]
  by (simp add: image_live_def)

section \<open>Properties of the header validation\<close>

lemma unat_succ_below:
  assumes "(c::uint32_t) < n"
  shows "unat (c + 1) = Suc (unat c)"
proof -
  from assms have "unat c < unat n"
    by (simp add: word_less_nat_alt)
  moreover have "unat n < 2 ^ 32"
    using unsigned_less [of n] by simp
  ultimately have "unat c + unat (1 :: uint32_t) < 2 ^ LENGTH(32)"
    by simp
  then have "unat (c + 1) = unat c + unat (1 :: uint32_t)"
    by (simp only: unat_add_lem)
  then show ?thesis
    by simp
qed

lemma succ_le: "(c::uint32_t) < n \<Longrightarrow> c \<le> c + 1"
  by (simp add: word_le_nat_alt unat_succ_below)

lemma validate_rejects:
  "c0 \<le> c \<Longrightarrow> c < get_num_components siz \<Longrightarrow> \<not> same_format siz c
     \<Longrightarrow> validate_components siz c0 \<noteq> None"
proof (induction siz c0 rule: validate_components.induct)
  case (1 siz c0)
  from "1.prems" have lt: "c0 < get_num_components siz" by simp
  show ?case
  proof (cases "same_format siz c0")
    case False
    with lt show ?thesis
      by (subst validate_components.simps) (auto simp: same_format_def same_geometry_def prod_eq_iff)
  next
    case True
    with "1.prems" have "c0 \<noteq> c" by auto
    with "1.prems" have "c0 < c" by simp
    then have "c0 + 1 \<le> c" by (rule inc_le)
    with True lt "1.prems" "1.IH" show ?thesis
      by (subst validate_components.simps) (auto simp: same_format_def same_geometry_def prod_eq_iff)
  qed
qed

lemma validate_bit_depth_first:
  "c0 \<le> c \<Longrightarrow> c < get_num_components siz
     \<Longrightarrow> (\<forall>k. c0 \<le> k \<and> k < c \<longrightarrow> same_format siz k)
     \<Longrightarrow> same_geometry siz c \<Longrightarrow> get_bit_depth siz c \<noteq> get_bit_depth siz 0
     \<Longrightarrow> validate_components siz c0 = Some ''mixed component bit depth is not supported''"
proof (induction siz c0 rule: validate_components.induct)
  case (1 siz c0)
  from "1.prems" have lt: "c0 < get_num_components siz" by simp
  show ?case
  proof (cases "c0 = c")
    case True
    with lt "1.prems" show ?thesis
      by (subst validate_components.simps) (auto simp: same_geometry_def prod_eq_iff)
  next
    case False
    with "1.prems" have c: "c0 < c" by simp
    then have le: "c0 + 1 \<le> c" by (rule inc_le)
    from c have "c0 \<le> c0 + 1" by (rule succ_le)
    then have all: "\<forall>k. c0 + 1 \<le> k \<and> k < c \<longrightarrow> same_format siz k"
      using "1.prems"(3) by auto
    from c "1.prems"(3) have sf: "same_format siz c0" by auto
    have "validate_components siz (c0 + 1) = Some ''mixed component bit depth is not supported''"
      using sf lt le all "1.prems" 
      by (intro "1.IH") (auto simp: same_format_def same_geometry_def prod_eq_iff)
    with sf lt show ?thesis
      by (subst validate_components.simps) (auto simp: same_format_def same_geometry_def prod_eq_iff)
  qed
qed

lemma validate_mixed:
  "validate_components siz_mixed 1 = Some ''subsampled components are not yet supported''"
  by (simp add: validate_components.simps siz_mixed_def)

lemma write_error_differs:
  "write_error (Some buffer_of_x) 64 (Some ''subsampled components are not yet supported'')
     \<noteq> write_error (Some buffer_of_x) 64 (Some ''mixed component bit depth is not supported'')"
proof
  assume "write_error (Some buffer_of_x) 64 (Some ''subsampled components are not yet supported'')
     = write_error (Some buffer_of_x) 64 (Some ''mixed component bit depth is not supported'')"
  then have "peek (the (write_error (Some buffer_of_x) 64 (Some ''subsampled components are not yet supported''))) 1
     = peek (the (write_error (Some buffer_of_x) 64 (Some ''mixed component bit depth is not supported''))) 1"
    by simp
  then show False
    by (simp add: write_error_def strlen_def NUL_def peek_def memcpy_str_def)
qed

text \<open>
  C5, as written, fails: the validation loop reports the first check that fails. With two
  components that differ in width and in bit depth the call is UNSUPPORTED, but the
  message is the one of the size check, and it does not mention the bit depth.
\<close>

theorem first_mismatch_names_the_message:
  "ojph_decode_image 0 env_mixed (Some [0xFF, 0x4F]) 2 (Some image_live) (Some buffer_of_x) 64 world_live
     = Some (Returned OJPH_STATUS_UNSUPPORTED (Some zero_image)
               (write_error (Some buffer_of_x) 64 (Some ''subsampled components are not yet supported''))
               (world_live\<lparr>trace := trace_of_validation\<rparr>))
   \<and> get_bit_depth (access_siz env_mixed) 1 \<noteq> get_bit_depth (access_siz env_mixed) 0
   \<and> write_error (Some buffer_of_x) 64 (Some ''subsampled components are not yet supported'')
       \<noteq> write_error (Some buffer_of_x) 64 (Some ''mixed component bit depth is not supported'')"
proof -
  have "decode_codestream 0 env_mixed [0xFF, 0x4F] 2 zero_image (Some buffer_of_x) 64 world_live
     = Some (Completed False zero_image
               (write_error (Some buffer_of_x) 64 (Some ''subsampled components are not yet supported''))
               (world_live\<lparr>trace := trace_of_validation\<rparr>))"
    by (simp add: decode_codestream_def Let_def env_mixed_def env_gray8_simps validate_mixed
        world_live_def trace_of_validation_def)
       (simp add: siz_mixed_def)
  then show ?thesis
    using write_error_differs
    by (simp add: ojph_decode_image_def env_mixed_def) (simp add: siz_mixed_def)
qed

text \<open>
  C5, amended: when the arguments pass the argument check, the headers are read without
  an exception and some component \<open>c \<ge> 1\<close> has a bit depth other than component 0's, the
  call returns UNSUPPORTED, the entity is zeroed, the heap is untouched and the trace holds
  the four engine calls of header reading only, so no pixel buffer was allocated. The
  message handed to the error channel is \<open>mixed component bit depth is not supported\<close>
  when no check fails before that one: every component before \<open>c\<close> agrees with component 0
  in all four fields and \<open>c\<close> agrees with it in size and downsampling.
\<close>

theorem mixed_bit_depth_is_unsupported:
  assumes "len \<noteq> 0" and "read_headers e = None"
    and "1 \<le> c" and "c < get_num_components (access_siz e)"
    and "get_bit_depth (access_siz e) c \<noteq> get_bit_depth (access_siz e) 0"
  shows "\<exists>msg. ojph_decode_image fuel e (Some bytes) len (Some img) em el w
           = Some (Returned OJPH_STATUS_UNSUPPORTED (Some zero_image)
                     (write_error em el (Some msg))
                     (w\<lparr>trace := trace w @ trace_of_validation\<rparr>))
         \<and> ((\<forall>k. 1 \<le> k \<and> k < c \<longrightarrow> same_format (access_siz e) k)
              \<and> same_geometry (access_siz e) c
            \<longrightarrow> msg = ''mixed component bit depth is not supported'')"
proof -
  let ?siz = "access_siz e"
  have "\<not> same_format ?siz c"
    using assms(5) by (simp add: same_format_def)
  with assms(3,4) have "validate_components ?siz 1 \<noteq> None"
    by (rule validate_rejects)
  then obtain msg where msg: "validate_components ?siz 1 = Some msg"
    by auto
  have nz: "get_num_components ?siz \<noteq> 0"
    using assms(4) by auto
  have "decode_codestream fuel e bytes len zero_image em el w
          = Some (Completed False zero_image (write_error em el (Some msg))
                    (w\<lparr>trace := trace w @ trace_of_validation\<rparr>))"
    using assms(2) nz msg
    by (simp add: decode_codestream_def Let_def trace_of_validation_def)
  then have "ojph_decode_image fuel e (Some bytes) len (Some img) em el w
           = Some (Returned OJPH_STATUS_UNSUPPORTED (Some zero_image)
                     (write_error em el (Some msg))
                     (w\<lparr>trace := trace w @ trace_of_validation\<rparr>))"
    using assms(1) by (simp add: ojph_decode_image_def)
  moreover have "msg = ''mixed component bit depth is not supported''"
    if "\<forall>k. 1 \<le> k \<and> k < c \<longrightarrow> same_format ?siz k" "same_geometry ?siz c"
    using validate_bit_depth_first [OF assms(3,4) that assms(5)] msg by simp
  ultimately show ?thesis
    by blast
qed

text \<open>The theorem at two components that differ in bit depth only, \<open>c = 1\<close>.\<close>

theorem mixed_bit_depth_is_unsupported_witness:
  "ojph_decode_image 0 env_depth (Some [0xFF, 0x4F]) 2 (Some image_live) (Some buffer_of_x) 64 world_live
     = Some (Returned OJPH_STATUS_UNSUPPORTED (Some zero_image)
               (write_error (Some buffer_of_x) 64 (Some ''mixed component bit depth is not supported''))
               (world_live\<lparr>trace := trace_of_validation\<rparr>))"
proof -
  have e: "access_siz env_depth = siz_depth" "read_headers env_depth = None"
    by (simp_all add: env_depth_def env_gray8_def)
  have s: "(1::uint32_t) < get_num_components siz_depth"
    "get_bit_depth siz_depth 1 \<noteq> get_bit_depth siz_depth 0" "same_geometry siz_depth 1"
    by (simp_all add: siz_depth_def same_geometry_def)
  have v: "\<forall>k::uint32_t. 1 \<le> k \<and> k < 1 \<longrightarrow> same_format siz_depth k"
    by auto
  have t: "trace world_live = []"
    by (simp add: world_live_def)
  show ?thesis
    using mixed_bit_depth_is_unsupported
      [of 2 env_depth 1 0 "[0xFF, 0x4F]" image_live "Some buffer_of_x" 64 world_live]
      s v
    by (auto simp: e t)
qed

section \<open>Properties of the release\<close>

lemma free_returns_zero:
  "ojph_free_image w (Some img) = Some (w', r) \<Longrightarrow> r = Some zero_image"
  by (auto simp: ojph_free_image_def split: option.splits if_splits)

lemma free_releasable:
  assumes "releasable w img"
  shows "\<exists>w'. ojph_free_image w (Some img) = Some (w', Some zero_image)
     \<and> (\<forall>p. heap w' p = (if p \<noteq> nullptr \<and> (p = pixels8 img \<or> p = pixels16 img) then None else heap w p))"
  using assms
  by (auto simp: releasable_def ojph_free_image_def free_def split: option.splits)

text \<open>
  C9: whenever \<^verbatim>\<open>ojph_free_image\<close> returns, the entity is all zero and a second call on
  it changes nothing: release after release equals release. It does return for every
  entity whose non-null handles are live, distinct allocations, and then the heap has
  lost exactly those allocations. A null entity pointer is a no-op.
\<close>

theorem release_is_idempotent:
  "(\<forall>w' r. ojph_free_image w (Some img) = Some (w', r)
       \<longrightarrow> r = Some zero_image \<and> ojph_free_image w' r = Some (w', r))
   \<and> (releasable w img \<longrightarrow>
        (\<exists>w'. ojph_free_image w (Some img) = Some (w', Some zero_image)
           \<and> (\<forall>p. heap w' p
                  = (if p \<noteq> nullptr \<and> (p = pixels8 img \<or> p = pixels16 img) then None
                     else heap w p))))
   \<and> ojph_free_image w None = Some (w, None)"
  using free_returns_zero [of w img] free_releasable [of w img] free_zero_image
  by (auto simp: ojph_free_image_def)

text \<open>The theorem at an entity that holds the live buffer at address 4096.\<close>

theorem release_is_idempotent_witness:
  "\<exists>w'. ojph_free_image world_live (Some image_live) = Some (w', Some zero_image)
     \<and> heap w' 4096 = None
     \<and> ojph_free_image w' (Some zero_image) = Some (w', Some zero_image)"
proof -
  have r: "releasable world_live image_live"
    by (simp add: releasable_def world_live_def image_live_def zero_image_def nullptr_def)
  have p: "pixels8 image_live = 4096" "(4096::nat) \<noteq> nullptr"
    by (simp_all add: image_live_def nullptr_def)
  from release_is_idempotent [of world_live image_live] r
  obtain w' where w: "ojph_free_image world_live (Some image_live) = Some (w', Some zero_image)"
    "\<forall>p. heap w' p = (if p \<noteq> nullptr \<and> (p = pixels8 image_live \<or> p = pixels16 image_live)
                          then None else heap world_live p)"
    by blast
  from w(2) p have "heap w' 4096 = None"
    by simp
  moreover from release_is_idempotent [of world_live image_live] w(1)
  have "ojph_free_image w' (Some zero_image) = Some (w', Some zero_image)"
    by blast
  ultimately show ?thesis
    using w(1) by blast
qed

section \<open>Properties of the line conversion\<close>

lemma store_samples_writes:
  assumes "distinct xs" "inj_on j (set xs)"
    and "\<forall>x\<in>set xs. conv x \<noteq> None"
    and "\<forall>x\<in>set xs. size_t (b + size_t (x * nc)) = j x \<and> j x < length dst"
  shows "\<exists>dst'. store_samples conv b nc xs dst = Some dst'
           \<and> length dst' = length dst
           \<and> (\<forall>x\<in>set xs. Some (dst' ! j x) = conv x)
           \<and> (\<forall>i. i \<notin> j ` set xs \<longrightarrow> dst' ! i = dst ! i)"
  using assms
proof (induction xs arbitrary: dst)
  case Nil
  then show ?case by simp
next
  case (Cons x xs)
  from Cons.prems obtain v where v: "conv x = Some v" by auto
  from Cons.prems have jx: "size_t (b + size_t (x * nc)) = j x" "j x < length dst" by auto
  let ?d = "dst[j x := v]"
  have "\<exists>dst'. store_samples conv b nc xs ?d = Some dst'
           \<and> length dst' = length ?d
           \<and> (\<forall>x\<in>set xs. Some (dst' ! j x) = conv x)
           \<and> (\<forall>i. i \<notin> j ` set xs \<longrightarrow> dst' ! i = ?d ! i)"
    using Cons.prems by (intro Cons.IH) (auto simp: inj_on_def)
  then obtain dst' where d: "store_samples conv b nc xs ?d = Some dst'"
    "length dst' = length dst" "\<forall>x\<in>set xs. Some (dst' ! j x) = conv x"
    "\<forall>i. i \<notin> j ` set xs \<longrightarrow> dst' ! i = ?d ! i"
    by auto
  from Cons.prems have "j x \<notin> j ` set xs"
    by (auto simp: inj_on_def)
  with d(4) jx have here: "dst' ! j x = v" by simp
  have "store_samples conv b nc (x # xs) dst = Some dst'"
    using v jx d(1) by (simp add: Let_def)
  moreover have "\<forall>i. i \<notin> j ` set (x # xs) \<longrightarrow> dst' ! i = dst ! i"
    using d(4) by auto
  ultimately show ?case
    using d(2,3) here v by auto
qed

lemma flat_index_bound:
  assumes "r < h" "c < nc" "x < w"
  shows "flat_index r w nc x c < w * h * nc"
proof -
  have "x * nc + c < (x + 1) * nc" using assms by simp
  also have "\<dots> \<le> w * nc" using assms by (intro mult_le_mono1) simp
  finally have a: "x * nc + c < w * nc" .
  have "r * w * nc + w * nc = (r + 1) * (w * nc)" by (simp add: algebra_simps)
  also have "\<dots> \<le> h * (w * nc)" using assms by (intro mult_le_mono1) simp
  finally have "r * w * nc + w * nc \<le> w * h * nc" by (simp add: algebra_simps)
  with a show ?thesis by (simp add: flat_index_def)
qed

lemma size_t_id: "n < 2 ^ 64 \<Longrightarrow> size_t n = n"
  by (simp add: size_t_def)

lemma index_no_wrap:
  assumes fit: "unat W * unat H * unat NC < 2 ^ 64" and "row < H" "ci < NC" "x < unat W"
  shows "size_t (base_index row W NC ci + size_t (x * unat NC))
           = flat_index (unat row) (unat W) (unat NC) x (unat ci)"
    and "flat_index (unat row) (unat W) (unat NC) x (unat ci) < unat W * unat H * unat NC"
proof -
  let ?r = "unat row" and ?w = "unat W" and ?n = "unat NC" and ?c = "unat ci" and ?h = "unat H"
  have r: "?r < ?h" and c: "?c < ?n"
    using assms by (simp_all add: word_less_nat_alt)
  show b: "flat_index ?r ?w ?n x ?c < ?w * ?h * ?n"
    using r c assms(4) by (rule flat_index_bound)
  then have lt: "?r * ?w * ?n + x * ?n + ?c < 2 ^ 64"
    using fit by (simp add: flat_index_def)
  have n1: "1 \<le> ?n" using c by simp
  have "?r * ?w \<le> ?r * ?w * ?n" using n1 by simp
  with lt have 1: "?r * ?w < 2 ^ 64" by linarith
  from lt have 2: "?r * ?w * ?n < 2 ^ 64" "?r * ?w * ?n + ?c < 2 ^ 64" "x * ?n < 2 ^ 64"
    by linarith+
  have "base_index row W NC ci = ?r * ?w * ?n + ?c"
    using 1 2 by (simp add: base_index_def size_t_id)
  with lt 2 show "size_t (base_index row W NC ci + size_t (x * ?n)) = flat_index ?r ?w ?n x ?c"
    by (simp add: size_t_id flat_index_def)
qed

lemma flat_index_inj: "0 < nc \<Longrightarrow> inj_on (\<lambda>x. flat_index r w nc x c) A"
  by (auto simp: inj_on_def flat_index_def)

lemma store_line:
  assumes fit: "unat W * unat H * unat NC < 2 ^ 64" and "row < H" "ci < NC"
    and len: "length dst = unat W * unat H * unat NC"
    and n: "n \<le> unat W"
    and conv: "\<forall>x<n. conv x \<noteq> None"
  shows "\<exists>dst'. store_samples conv (base_index row W NC ci) (unat NC) [0..<n] dst = Some dst'
           \<and> length dst' = length dst
           \<and> (\<forall>x<n. Some (dst' ! flat_index (unat row) (unat W) (unat NC) x (unat ci)) = conv x)
           \<and> (\<forall>i. i \<notin> (\<lambda>x. flat_index (unat row) (unat W) (unat NC) x (unat ci)) ` {..<n}
                 \<longrightarrow> dst' ! i = dst ! i)"
proof -
  let ?j = "\<lambda>x. flat_index (unat row) (unat W) (unat NC) x (unat ci)"
  have nc: "0 < unat NC"
    using assms(3) by (simp add: word_less_nat_alt)
  have "\<exists>dst'. store_samples conv (base_index row W NC ci) (unat NC) [0..<n] dst = Some dst'
           \<and> length dst' = length dst
           \<and> (\<forall>x\<in>set [0..<n]. Some (dst' ! ?j x) = conv x)
           \<and> (\<forall>i. i \<notin> ?j ` set [0..<n] \<longrightarrow> dst' ! i = dst ! i)"
  proof (rule store_samples_writes)
    show "distinct [0..<n]" by simp
    show "inj_on ?j (set [0..<n])" using nc by (rule flat_index_inj)
    show "\<forall>x\<in>set [0..<n]. conv x \<noteq> None" using conv by simp
    show "\<forall>x\<in>set [0..<n]. size_t (base_index row W NC ci + size_t (x * unat NC)) = ?j x
            \<and> ?j x < length dst"
      using index_no_wrap [OF fit assms(2,3)] n len by auto
  qed
  moreover have "set [0..<n] = {..<n}"
    by auto
  ultimately show ?thesis
    by (simp only: ball_simps lessThan_iff Ball_def)
qed

lemma process_line_u8:
  assumes fit: "unat W * unat H * unat NC < 2 ^ 64" and "row < H" "ci < NC"
    and len: "length (u8 buffers) = unat W * unat H * unat NC"
    and tag: "lft_integer line \<or> lft_32bit line"
    and conv: "\<forall>x < samples_in_line line W. convert8 oor d line x \<noteq> None"
  shows "\<exists>dst'. process_line oor W NC d s True row ci line buffers = LineStored (buffers\<lparr>u8 := dst'\<rparr>)
           \<and> length dst' = length (u8 buffers)
           \<and> (\<forall>x < samples_in_line line W.
                 Some (dst' ! flat_index (unat row) (unat W) (unat NC) x (unat ci)) = convert8 oor d line x)
           \<and> (\<forall>i. i \<notin> (\<lambda>x. flat_index (unat row) (unat W) (unat NC) x (unat ci)) ` {..< samples_in_line line W}
                 \<longrightarrow> dst' ! i = u8 buffers ! i)"
proof -
  have n: "samples_in_line line W \<le> unat W"
    by (simp add: samples_in_line_def)
  note st = store_line [OF fit assms(2,3) len n, of "\<lambda>x. convert8 oor d line x"]
  show ?thesis
  proof (cases "lft_integer line")
    case True
    with st conv show ?thesis
      by (auto simp: process_line_def Let_def convert8_def)
  next
    case False
    with tag st conv show ?thesis
      by (auto simp: process_line_def Let_def convert8_def)
  qed
qed

lemma process_line_u16:
  assumes fit: "unat W * unat H * unat NC < 2 ^ 64" and "row < H" "ci < NC"
    and len: "length (u16 buffers) = unat W * unat H * unat NC"
    and tag: "lft_integer line \<or> lft_32bit line"
    and conv: "\<forall>x < samples_in_line line W. convert16 oor d s line x \<noteq> None"
  shows "\<exists>dst'. process_line oor W NC d s False row ci line buffers = LineStored (buffers\<lparr>u16 := dst'\<rparr>)
           \<and> length dst' = length (u16 buffers)
           \<and> (\<forall>x < samples_in_line line W.
                 Some (dst' ! flat_index (unat row) (unat W) (unat NC) x (unat ci)) = convert16 oor d s line x)
           \<and> (\<forall>i. i \<notin> (\<lambda>x. flat_index (unat row) (unat W) (unat NC) x (unat ci)) ` {..< samples_in_line line W}
                 \<longrightarrow> dst' ! i = u16 buffers ! i)"
proof -
  have n: "samples_in_line line W \<le> unat W"
    by (simp add: samples_in_line_def)
  note st = store_line [OF fit assms(2,3) len n, of "\<lambda>x. convert16 oor d s line x"]
  show ?thesis
  proof (cases "lft_integer line")
    case True
    with st conv show ?thesis
      by (auto simp: process_line_def Let_def convert16_def)
  next
    case False
    with tag st conv show ?thesis
      by (auto simp: process_line_def Let_def convert16_def)
  qed
qed

lemma total_samples_exact:
  assumes "unat (get_recon_width siz 0) * unat (get_recon_height siz 0)
             * unat (get_num_components siz) < 2 ^ 64"
    and "get_num_components siz \<noteq> 0"
  shows "total_samples siz
           = unat (get_recon_width siz 0) * unat (get_recon_height siz 0)
               * unat (get_num_components siz)"
proof -
  let ?w = "unat (get_recon_width siz 0)" and ?h = "unat (get_recon_height siz 0)"
    and ?n = "unat (get_num_components siz)"
  have "1 \<le> ?n"
    using assms(2) unat_eq_zero [of "get_num_components siz"] by (cases "unat (get_num_components siz)") simp_all
  then have "?w * ?h \<le> ?w * ?h * ?n"
    by simp
  with assms(1) have "?w * ?h < 2 ^ 64"
    by linarith
  with assms(1) show ?thesis
    by (simp add: total_samples_def size_t_id)
qed

text \<open>
  The loop body, where the sample count does not wrap: for a line of a known layout, of
  row \<open>row < height\<close> and component \<open>comp < componentCount\<close>, whose conversions are defined,
  the number of samples used is \<open>min(line.length, width)\<close>, the \<open>x\<close>-th converted sample is
  at flat index \<open>row * width * componentCount + x * componentCount + comp\<close> of the working
  buffer of \<open>width * height * componentCount\<close> elements, and every other element is as
  before.
\<close>

lemma pulled_line_is_interleaved:
  assumes "unat W * unat H * unat NC < 2 ^ 64" and "row < H" and "ci < NC"
    and "lft_integer line \<or> lft_32bit line"
  shows "samples_in_line line W = min (line_size line) (unat W)
     \<and> (length (u8 buffers) = unat W * unat H * unat NC
          \<and> (\<forall>x < samples_in_line line W. convert8 oor d line x \<noteq> None)
        \<longrightarrow> (\<exists>dst'. process_line oor W NC d s True row ci line buffers
                       = LineStored (buffers\<lparr>u8 := dst'\<rparr>)
               \<and> length dst' = unat W * unat H * unat NC
               \<and> (\<forall>x < samples_in_line line W.
                     Some (dst' ! flat_index (unat row) (unat W) (unat NC) x (unat ci))
                       = convert8 oor d line x)
               \<and> (\<forall>i. i \<notin> (\<lambda>x. flat_index (unat row) (unat W) (unat NC) x (unat ci))
                              ` {..< samples_in_line line W}
                     \<longrightarrow> dst' ! i = u8 buffers ! i)))
     \<and> (length (u16 buffers) = unat W * unat H * unat NC
          \<and> (\<forall>x < samples_in_line line W. convert16 oor d s line x \<noteq> None)
        \<longrightarrow> (\<exists>dst'. process_line oor W NC d s False row ci line buffers
                       = LineStored (buffers\<lparr>u16 := dst'\<rparr>)
               \<and> length dst' = unat W * unat H * unat NC
               \<and> (\<forall>x < samples_in_line line W.
                     Some (dst' ! flat_index (unat row) (unat W) (unat NC) x (unat ci))
                       = convert16 oor d s line x)
               \<and> (\<forall>i. i \<notin> (\<lambda>x. flat_index (unat row) (unat W) (unat NC) x (unat ci))
                              ` {..< samples_in_line line W}
                     \<longrightarrow> dst' ! i = u16 buffers ! i)))"
proof (intro conjI impI)
  show "samples_in_line line W = min (line_size line) (unat W)"
    by (simp add: samples_in_line_def)
next
  assume a: "length (u8 buffers) = unat W * unat H * unat NC
     \<and> (\<forall>x < samples_in_line line W. convert8 oor d line x \<noteq> None)"
  then show "\<exists>dst'. process_line oor W NC d s True row ci line buffers
                       = LineStored (buffers\<lparr>u8 := dst'\<rparr>)
               \<and> length dst' = unat W * unat H * unat NC
               \<and> (\<forall>x < samples_in_line line W.
                     Some (dst' ! flat_index (unat row) (unat W) (unat NC) x (unat ci))
                       = convert8 oor d line x)
               \<and> (\<forall>i. i \<notin> (\<lambda>x. flat_index (unat row) (unat W) (unat NC) x (unat ci))
                              ` {..< samples_in_line line W}
                     \<longrightarrow> dst' ! i = u8 buffers ! i)"
    using process_line_u8 [OF assms(1,2,3) _ assms(4), of buffers oor d s] by simp
next
  assume a: "length (u16 buffers) = unat W * unat H * unat NC
     \<and> (\<forall>x < samples_in_line line W. convert16 oor d s line x \<noteq> None)"
  then show "\<exists>dst'. process_line oor W NC d s False row ci line buffers
                       = LineStored (buffers\<lparr>u16 := dst'\<rparr>)
               \<and> length dst' = unat W * unat H * unat NC
               \<and> (\<forall>x < samples_in_line line W.
                     Some (dst' ! flat_index (unat row) (unat W) (unat NC) x (unat ci))
                       = convert16 oor d s line x)
               \<and> (\<forall>i. i \<notin> (\<lambda>x. flat_index (unat row) (unat W) (unat NC) x (unat ci))
                              ` {..< samples_in_line line W}
                     \<longrightarrow> dst' ! i = u16 buffers ! i)"
    using process_line_u16 [OF assms(1,2,3) _ assms(4), of buffers oor d s] by simp
qed

text \<open>
  At row 1 and component 2 of a 2 x 2 image of 3 components: the samples 10 and 300 end
  up as 10 and 255 at the indices 8 and 11, and index 7 keeps its 0.
\<close>

lemma pulled_line_is_interleaved_example:
  "\<exists>dst'. process_line lround_long_min 2 3 8 False True 1 2 line_gray8
              \<lparr>u8 = [0, 0, 0, 0, 0, 0, 0, 0, 0, 0, 0, 0], u16 = []\<rparr>
            = LineStored \<lparr>u8 = dst', u16 = []\<rparr>
     \<and> length dst' = 12 \<and> dst' ! 8 = 10 \<and> dst' ! 11 = 255 \<and> dst' ! 7 = 0"
proof -
  let ?b = "\<lparr>u8 = [0, 0, 0, 0, 0, 0, 0, 0, 0, 0, 0, 0 :: uint8_t], u16 = []\<rparr>"
  have n: "samples_in_line line_gray8 2 = 2"
    by (simp add: samples_in_line_def line_gray8_def)
  have c: "convert8 lround_long_min 8 line_gray8 0 = Some 10"
    "convert8 lround_long_min 8 line_gray8 1 = Some 255"
    by (simp_all add: convert8_def line_gray8_def clamp_to_uint8_def clamp_between_def)
  have all: "\<forall>x < samples_in_line line_gray8 2. convert8 lround_long_min 8 line_gray8 x \<noteq> None"
    by (simp add: convert8_def line_gray8_def clamp_to_uint8_def)
  have tag: "lft_integer line_gray8 \<or> lft_32bit line_gray8"
    by (simp add: line_gray8_def)
  have fit: "unat (2::uint32_t) * unat (2::uint32_t) * unat (3::uint32_t) < 2 ^ 64"
    "(1::uint32_t) < 2" "(2::uint32_t) < 3"
    by simp_all
  have len: "length (u8 ?b) = unat (2::uint32_t) * unat (2::uint32_t) * unat (3::uint32_t)"
    by simp
  from pulled_line_is_interleaved [OF fit tag, of ?b lround_long_min 8 False] all len
  obtain dst' where d:
    "process_line lround_long_min 2 3 8 False True 1 2 line_gray8 ?b = LineStored \<lparr>u8 = dst', u16 = []\<rparr>"
    "length dst' = 12"
    "\<forall>x < samples_in_line line_gray8 2.
       Some (dst' ! flat_index (unat (1::uint32_t)) (unat (2::uint32_t)) (unat (3::uint32_t)) x
                      (unat (2::uint32_t)))
         = convert8 lround_long_min 8 line_gray8 x"
    "\<forall>i. i \<notin> (\<lambda>x. flat_index (unat (1::uint32_t)) (unat (2::uint32_t)) (unat (3::uint32_t)) x
                      (unat (2::uint32_t))) ` {..< samples_in_line line_gray8 2}
         \<longrightarrow> dst' ! i = u8 ?b ! i"
    by auto
  from d(3) n have "Some (dst' ! flat_index 1 2 3 0 2) = convert8 lround_long_min 8 line_gray8 0"
    "Some (dst' ! flat_index 1 2 3 1 2) = convert8 lround_long_min 8 line_gray8 1"
    by auto
  with c have v: "dst' ! 8 = 10" "dst' ! 11 = 255"
    by (simp_all add: flat_index_def)
  have "7 \<notin> (\<lambda>x. flat_index (unat (1::uint32_t)) (unat (2::uint32_t)) (unat (3::uint32_t)) x
                      (unat (2::uint32_t))) ` {..< samples_in_line line_gray8 2}"
    by (auto simp: flat_index_def n)
  with d(4) have "dst' ! 7 = u8 ?b ! 7"
    by blast
  then have "dst' ! 7 = 0"
    by simp
  with d(1,2) v show ?thesis
    by blast
qed

subsection \<open>A decode of two rows and two components\<close>

text \<open>
  The whole call on the 2 x 2 image of two components: four lines are pulled, and the
  buffer handed to the caller holds them row by row with the components of each pixel
  side by side.
\<close>

lemma siz_two_simps:
  "get_num_components siz_two = 2" "get_recon_width siz_two c = 2"
  "get_recon_height siz_two c = 2" "get_bit_depth siz_two c = 8"
  "siz_is_signed siz_two c = False" "total_samples siz_two = 8" "output_u8 siz_two"
  "validate_components siz_two 1 = None"
  by (simp_all add: siz_two_def total_samples_def output_u8_def size_t_def
      validate_components.simps)

lemma env_two_simps:
  "access_siz env_two = siz_two" "read_headers env_two = None" "create env_two = None"
  "close env_two = None" "resize env_two n = None" "malloc env_two n = 4096"
  "pull env_two n c = PullLine c (line_two n)" "lround_unspecified env_two = lround_long_min"
  by (simp_all add: env_two_def env_gray8_def)

lemma process_line_two:
  "process_line oor 2 2 8 False True 0 0 (line_two 0) \<lparr>u8 = [0, 0, 0, 0, 0, 0, 0, 0], u16 = []\<rparr>
     = LineStored \<lparr>u8 = [0, 0, 1, 0, 0, 0, 0, 0], u16 = []\<rparr>"
  "process_line oor 2 2 8 False True 0 1 (line_two (Suc 0)) \<lparr>u8 = [0, 0, 1, 0, 0, 0, 0, 0], u16 = []\<rparr>
     = LineStored \<lparr>u8 = [0, 10, 1, 11, 0, 0, 0, 0], u16 = []\<rparr>"
  "process_line oor 2 2 8 False True 1 0 (line_two (Suc (Suc 0))) \<lparr>u8 = [0, 10, 1, 11, 0, 0, 0, 0], u16 = []\<rparr>
     = LineStored \<lparr>u8 = [0, 10, 1, 11, 20, 0, 21, 0], u16 = []\<rparr>"
  "process_line oor 2 2 8 False True 1 1 (line_two (Suc (Suc (Suc 0)))) \<lparr>u8 = [0, 10, 1, 11, 20, 0, 21, 0], u16 = []\<rparr>
     = LineStored \<lparr>u8 = [0, 10, 1, 11, 20, 30, 21, 31], u16 = []\<rparr>"
  by (simp_all add: process_line_def samples_in_line_def base_index_def size_t_def line_two_def
      upt_rec clamp_to_uint8_def clamp_between_def)

lemma pull_loop_two_steps:
  "pull_loop (Suc (Suc (Suc (Suc (Suc (Suc (Suc f))))))) env_two 0 0 0
       \<lparr>u8 = [0, 0, 0, 0, 0, 0, 0, 0], u16 = []\<rparr> w
     = Some (LoopDone \<lparr>u8 = [0, 10, 1, 11, 20, 30, 21, 31], u16 = []\<rparr>
               (w\<lparr>trace := trace w @ [Engine (Pull 0), Engine (Pull 1), Engine (Pull 0), Engine (Pull 1)]\<rparr>))"
  by (simp add: Let_def env_two_simps siz_two_simps process_line_two)

lemma pull_loop_two:
  "pull_loop 7 env_two 0 0 0 \<lparr>u8 = [0, 0, 0, 0, 0, 0, 0, 0], u16 = []\<rparr> w
     = Some (LoopDone \<lparr>u8 = [0, 10, 1, 11, 20, 30, 21, 31], u16 = []\<rparr>
               (w\<lparr>trace := trace w @ [Engine (Pull 0), Engine (Pull 1), Engine (Pull 0), Engine (Pull 1)]\<rparr>))"
proof -
  have seven: "(7::nat) = Suc (Suc (Suc (Suc (Suc (Suc (Suc 0))))))"
    by simp
  show ?thesis
    by (subst seven) (rule pull_loop_two_steps)
qed

lemma hand_over_two:
  "hand_over env_two \<lparr>u8 = [0, 10, 1, 11, 20, 30, 21, 31], u16 = []\<rparr> zero_image None 0 w
     = Completed True (populate siz_two (zero_image\<lparr>pixels8 := 4096, pixels16 := 0\<rparr>)) None
         (w\<lparr>trace := trace w @ [Malloc 8],
            heap := (heap w)(4096 \<mapsto> Block8 [0, 10, 1, 11, 20, 30, 21, 31])\<rparr>)"
  by (simp add: hand_over_def Let_def env_two_simps siz_two_simps nullptr_def)

lemma replicate_eight: "replicate 8 x = [x, x, x, x, x, x, x, x]"
  by (simp add: eval_nat_numeral)

lemma decode_two:
  "\<exists>img w'. ojph_decode_image 7 env_two (Some [0xFF, 0x4F]) 2 (Some image_live) None 0 world_empty
               = Some (Returned OJPH_STATUS_OK (Some img) None w')
     \<and> pixels8 img = 4096 \<and> pixel_count img = 8
     \<and> heap w' 4096 = Some (Block8 [0, 10, 1, 11, 20, 30, 21, 31])"
proof -
  have "\<exists>w'. decode_codestream 7 env_two [0xFF, 0x4F] 2 zero_image None 0 world_empty
     = Some (Completed True (populate siz_two (zero_image\<lparr>pixels8 := 4096, pixels16 := 0\<rparr>)) None w')
     \<and> heap w' 4096 = Some (Block8 [0, 10, 1, 11, 20, 30, 21, 31])"
    by (simp add: decode_codestream_def Let_def env_two_simps siz_two_simps replicate_eight
        pull_loop_two hand_over_two world_empty_def)
  then show ?thesis
    by (auto simp: ojph_decode_image_def populate_def siz_two_simps)
qed

subsection \<open>A sample count that wraps\<close>

lemma validate_huge: "validate_components siz_huge 1 = None"
  by (simp add: validate_components.simps siz_huge_def)

lemma decode_huge:
  "ojph_decode_image 2 env_huge (Some [0xFF, 0x4F]) 2 (Some image_live) None 0 world_empty
     = Some Undefined"
proof -
  have t: "total_samples siz_huge = 0" "output_u8 siz_huge"
    by (simp_all add: total_samples_def siz_huge_def size_t_def output_u8_def)
  have s: "get_num_components siz_huge = 4" "get_recon_width siz_huge 0 = 2147483648"
    "get_recon_height siz_huge 0 = 2147483648" "get_bit_depth siz_huge 0 = 8"
    "siz_is_signed siz_huge 0 = False"
    by (simp_all add: siz_huge_def)
  have p: "process_line lround_long_min 2147483648 4 8 False True 0 0 line_gray8 \<lparr>u8 = [], u16 = []\<rparr>
       = LineUndefined"
    by (simp add: process_line_def samples_in_line_def base_index_def size_t_def line_gray8_def
        upt_rec clamp_to_uint8_def clamp_between_def)
  have g: "pull_loop (Suc f) env_huge 0 0 0 \<lparr>u8 = [], u16 = []\<rparr> w = Some LoopUndefined" for f w
    by (simp add: env_huge_def env_gray8_simps s t p Let_def)
  have l: "pull_loop 2 env_huge 0 0 0 \<lparr>u8 = [], u16 = []\<rparr> w = Some LoopUndefined" for w
  proof -
    have two: "(2::nat) = Suc 1"
      by simp
    show ?thesis
      by (subst two) (rule g)
  qed
  have "decode_codestream 2 env_huge [0xFF, 0x4F] 2 zero_image None 0 world_empty
          = Some DecodeUndefined"
    by (simp add: decode_codestream_def Let_def env_huge_def env_gray8_simps validate_huge s t
        l [unfolded env_huge_def])
  then show ?thesis
    by (simp add: ojph_decode_image_def)
qed

text \<open>
  C7: every pulled line is stored at the flat index
  \<open>row * width * componentCount + x * componentCount + comp\<close> of a buffer of
  \<open>width * height * componentCount\<close> elements. The code breaks this where the product
  wraps in \<^verbatim>\<open>size_t\<close>: for a header of \<open>2^31\<close> by \<open>2^31\<close> pixels in 4 components the
  product is \<open>2^64\<close>, the working buffer is resized to 0 elements, the first pulled line
  is stored outside it, and the call as a whole is undefined.
\<close>

theorem sample_count_wraps:
  "total_samples siz_huge = 0
   \<and> unat (get_recon_width siz_huge 0) * unat (get_recon_height siz_huge 0)
       * unat (get_num_components siz_huge) = 2 ^ 64
   \<and> process_line lround_long_min (get_recon_width siz_huge 0) (get_num_components siz_huge) 8
        False True 0 0 line_gray8 \<lparr>u8 = replicate (total_samples siz_huge) 0, u16 = []\<rparr>
       = LineUndefined
   \<and> ojph_decode_image 2 env_huge (Some [0xFF, 0x4F]) 2 (Some image_live) None 0 world_empty
       = Some Undefined"
proof -
  have t: "total_samples siz_huge = 0"
    by (simp add: total_samples_def siz_huge_def size_t_def)
  have "process_line lround_long_min 2147483648 4 8 False True 0 0 line_gray8 \<lparr>u8 = [], u16 = []\<rparr>
       = LineUndefined"
    by (simp add: process_line_def samples_in_line_def base_index_def size_t_def line_gray8_def
        upt_rec clamp_to_uint8_def clamp_between_def)
  with t decode_huge show ?thesis
    by (simp add: siz_huge_def)
qed

end
